theory Spec2Isabelle
  imports Complex_Main
begin

section \<open>JavaScript strings and numbers\<close>

text \<open>
  Strings are lists of code units; the model covers the code units below 256 (Latin-1),
  which is what \<open>char\<close> holds. Case mapping is modelled on the ASCII letters.

  JavaScript numbers are idealised as exact rationals together with \<open>NaN\<close> and the two
  infinities: the rounding of binary64 and its overflow to \<open>Infinity\<close> are outside the model,
  and \<open>-0\<close> is identified with \<open>0\<close>.
\<close>

datatype jsnum = NaN | PosInf | NegInf | Fin rat


text \<open>White space and line terminators of ECMAScript below 256: what \<open>trim\<close>, \<open>\\s\<close> and
  \<open>Number\<close> strip.\<close>

definition is_ws :: "char \<Rightarrow> bool" where
  "is_ws c \<longleftrightarrow> (of_char c :: nat) \<in> {9, 10, 11, 12, 13, 32, 160}"

definition trim :: "string \<Rightarrow> string" where
  "trim s = rev (dropWhile is_ws (rev (dropWhile is_ws s)))"

definition is_digit :: "char \<Rightarrow> bool" where
  "is_digit c \<longleftrightarrow> 48 \<le> (of_char c :: nat) \<and> (of_char c :: nat) \<le> 57"

definition digit_val :: "char \<Rightarrow> nat" where
  "digit_val c = of_char c - 48"

text \<open>The value of a hexadecimal digit; 36 for any other character.\<close>

definition hex_val :: "char \<Rightarrow> nat" where
  "hex_val c =
     (let n = (of_char c :: nat)
      in if is_digit c then digit_val c
         else if 97 \<le> n \<and> n \<le> 102 then n - 87
         else if 65 \<le> n \<and> n \<le> 70 then n - 55
         else 36)"

definition digits_val :: "nat \<Rightarrow> string \<Rightarrow> nat" where
  "digits_val b ds = foldl (\<lambda>a c. b * a + hex_val c) 0 ds"

definition all_digits :: "string \<Rightarrow> bool" where
  "all_digits s \<longleftrightarrow> s \<noteq> [] \<and> list_all is_digit s"

definition pow10 :: "int \<Rightarrow> rat" where
  "pow10 e = (if 0 \<le> e then 10 ^ nat e else 1 / 10 ^ nat (- e))"

text \<open>\<open>SignedInteger\<close> of the grammar of numeric strings, up to the end of the string.\<close>

definition signed_integer :: "string \<Rightarrow> int option" where
  "signed_integer s =
     (case s of
        [] \<Rightarrow> None
      | c # r \<Rightarrow>
          if c = CHR ''+'' then (if all_digits r then Some (int (digits_val 10 r)) else None)
          else if c = CHR ''-'' then (if all_digits r then Some (- int (digits_val 10 r)) else None)
          else if all_digits s then Some (int (digits_val 10 s)) else None)"

text \<open>An optional \<open>ExponentPart\<close>, up to the end of the string.\<close>

definition exponent_part :: "string \<Rightarrow> int option" where
  "exponent_part s =
     (case s of
        [] \<Rightarrow> Some 0
      | c # r \<Rightarrow> if c = CHR ''e'' \<or> c = CHR ''E'' then signed_integer r else None)"

text \<open>\<open>StrUnsignedDecimalLiteral\<close>: \<open>Infinity\<close>, \<open>digits . digits? exponent?\<close>,
  \<open>. digits exponent?\<close> or \<open>digits exponent?\<close>.\<close>

definition str_unsigned_decimal :: "string \<Rightarrow> jsnum" where
  "str_unsigned_decimal s =
     (if s = ''Infinity'' then PosInf
      else
        let ip = takeWhile is_digit s;
            r1 = dropWhile is_digit s;
            fp = (case r1 of [] \<Rightarrow> [] | c # r \<Rightarrow> if c = CHR ''.'' then takeWhile is_digit r else []);
            r2 = (case r1 of [] \<Rightarrow> [] | c # r \<Rightarrow> if c = CHR ''.'' then dropWhile is_digit r else r1)
        in if ip = [] \<and> fp = [] then NaN
           else (case exponent_part r2 of
                   None \<Rightarrow> NaN
                 | Some e \<Rightarrow> Fin (of_nat (digits_val 10 (ip @ fp)) * pow10 (e - int (length fp)))))"

text \<open>\<open>NonDecimalIntegerLiteral\<close>: \<open>0x\<close>, \<open>0o\<close> or \<open>0b\<close> and at least one digit of the radix,
  with no sign.\<close>

definition non_decimal :: "string \<Rightarrow> jsnum option" where
  "non_decimal s =
     (case s of
        z # x # ds \<Rightarrow>
          (let b = (if x = CHR ''x'' \<or> x = CHR ''X'' then 16
                    else if x = CHR ''o'' \<or> x = CHR ''O'' then 8
                    else if x = CHR ''b'' \<or> x = CHR ''B'' then 2
                    else (0::nat))
           in if z = CHR ''0'' \<and> b \<noteq> 0 \<and> ds \<noteq> [] \<and> list_all (\<lambda>c. hex_val c < b) ds
              then Some (Fin (of_nat (digits_val b ds)))
              else None)
      | _ \<Rightarrow> None)"

fun js_neg :: "jsnum \<Rightarrow> jsnum" where
  "js_neg NaN = NaN"
| "js_neg PosInf = NegInf"
| "js_neg NegInf = PosInf"
| "js_neg (Fin q) = Fin (- q)"

text \<open>\<open>Number(s)\<close> on a string: white space around the literal is dropped, the empty string
  is 0, and whatever is not a numeric literal is \<open>NaN\<close>.\<close>

definition js_Number :: "string \<Rightarrow> jsnum" where
  "js_Number s =
     (let t = trim s
      in case t of
           [] \<Rightarrow> Fin 0
         | c # r \<Rightarrow>
             (case non_decimal t of
                Some v \<Rightarrow> v
              | None \<Rightarrow>
                  if c = CHR ''+'' then str_unsigned_decimal r
                  else if c = CHR ''-'' then js_neg (str_unsigned_decimal r)
                  else str_unsigned_decimal t))"

section \<open>Field normalizer\<close>

text \<open>
  \<^verbatim>\<open>
  const toNumber = (txt) => {
    if (!txt) return null;
    const clean = txt.replace(/[, ]+/g, "").trim();
    if (clean === "-" || clean === "") return null;
    const n = Number(clean);
    return Number.isFinite(n) ? n : null;
  };
  \<close>
\<close>

definition strip_commas_spaces :: "string \<Rightarrow> string" where
  "strip_commas_spaces txt = filter (\<lambda>c. c \<noteq> CHR '','' \<and> c \<noteq> CHR '' '') txt"

definition toNumber :: "string \<Rightarrow> rat option" where
  "toNumber txt =
     (if txt = [] then None
      else
        let clean = trim (strip_commas_spaces txt)
        in if clean = ''-'' \<or> clean = [] then None
           else (case js_Number clean of Fin n \<Rightarrow> Some n | _ \<Rightarrow> None))"

text \<open>
  \<^verbatim>\<open>
  const parsePercent = (txt) => {
    if (!txt) return null;
    const t = txt.replace(/[\s,%+]/g, "").trim();
    if (t === "-" || t === "") return null;
    const neg = /^-/.test(txt.trim());
    const num = Number(t.replace(/^-/, ""));
    if (!Number.isFinite(num)) return null;
    return (num / 100) * (neg ? -1 : 1);
  };
  \<close>
\<close>

definition strip_percent :: "string \<Rightarrow> string" where
  "strip_percent txt =
     filter (\<lambda>c. \<not> is_ws c \<and> c \<noteq> CHR '','' \<and> c \<noteq> CHR ''%'' \<and> c \<noteq> CHR ''+'') txt"

text \<open>\<open>/^-/.test(s)\<close> and \<open>s.replace(/^-/, "")\<close>\<close>

definition leading_minus :: "string \<Rightarrow> bool" where
  "leading_minus s = (case s of [] \<Rightarrow> False | c # _ \<Rightarrow> c = CHR ''-'')"

definition drop_leading_minus :: "string \<Rightarrow> string" where
  "drop_leading_minus s = (case s of [] \<Rightarrow> [] | c # r \<Rightarrow> if c = CHR ''-'' then r else s)"

definition parsePercent :: "string \<Rightarrow> rat option" where
  "parsePercent txt =
     (if txt = [] then None
      else
        let t = trim (strip_percent txt)
        in if t = ''-'' \<or> t = [] then None
           else
             let neg = leading_minus (trim txt);
                 num = js_Number (drop_leading_minus t)
             in (case num of
                   Fin n \<Rightarrow> Some ((n / 100) * (if neg then - 1 else 1))
                 | _ \<Rightarrow> None))"

section \<open>Configuration\<close>

text \<open>The watchlist \<open>TARGETS\<close>; \<open>TARGET_SET.has(code)\<close> is membership in its values.\<close>

definition TARGETS :: "string list" where
  "TARGETS = [''MTNN'', ''UBA'', ''GTCO'', ''ZENITHBANK'', ''ARADEL'', ''TOTALNG'', ''AIICO'',
              ''CORNERST'', ''OKOMUOIL'', ''PRESCO'', ''NESTLE'', ''DANGSUGAR'']"

definition TARGET_SET :: "string set" where
  "TARGET_SET = set TARGETS"

type_synonym address = string
type_synonym hash = string

text \<open>\<open>process.env\<close>\<close>

type_synonym environment = "string \<rightharpoonup> string"

section \<open>Extracting the ticker code\<close>

definition ascii_lower :: string where
  "ascii_lower = ''abcdefghijklmnopqrstuvwxyz''"

definition ascii_upper :: string where
  "ascii_upper = ''ABCDEFGHIJKLMNOPQRSTUVWXYZ''"

definition toUpperCase :: "string \<Rightarrow> string" where
  "toUpperCase s =
     map (\<lambda>c. case map_of (zip ascii_lower ascii_upper) c of None \<Rightarrow> c | Some u \<Rightarrow> u) s"

definition toLowerCase :: "string \<Rightarrow> string" where
  "toLowerCase s =
     map (\<lambda>c. case map_of (zip ascii_upper ascii_lower) c of None \<Rightarrow> c | Some l \<Rightarrow> l) s"

text \<open>\<open>s.split(sep)\<close> for a separator of one character.\<close>

fun split_on :: "char \<Rightarrow> string \<Rightarrow> string list" where
  "split_on sep [] = [[]]"
| "split_on sep (c # s) =
     (if c = sep then [] # split_on sep s
      else (case split_on sep s of [] \<Rightarrow> [[c]] | p # ps \<Rightarrow> (c # p) # ps))"

text \<open>
  \<open>URLSearchParams\<close>: the query is cut at every \<open>&\<close>, each non-empty piece at its first
  \<open>=\<close>; in name and value \<open>+\<close> is a space and \<open>%XX\<close> is the byte \<open>XX\<close>. The model decodes
  the escapes of ASCII bytes; an escape of a byte from 0x80 on (part of the UTF-8 sequence
  of a code point beyond ASCII) is outside the model and is left as it stands.
\<close>

fun percent_decode :: "string \<Rightarrow> string" where
  "percent_decode (c # h # l # s) =
     (if c = CHR ''%'' \<and> hex_val h < 8 \<and> hex_val l < 16
      then char_of (16 * hex_val h + hex_val l) # percent_decode s
      else c # percent_decode (h # l # s))"
| "percent_decode s = s"

definition form_decode :: "string \<Rightarrow> string" where
  "form_decode s = percent_decode (map (\<lambda>c. if c = CHR ''+'' then CHR '' '' else c) s)"

definition name_value :: "string \<Rightarrow> string \<times> string" where
  "name_value piece =
     (form_decode (takeWhile (\<lambda>c. c \<noteq> CHR ''='') piece),
      form_decode (drop 1 (dropWhile (\<lambda>c. c \<noteq> CHR ''='') piece)))"

definition URLSearchParams :: "string \<Rightarrow> (string \<times> string) list" where
  "URLSearchParams qs = map name_value (filter (\<lambda>p. p \<noteq> []) (split_on CHR ''&'' qs))"

text \<open>\<open>params.get(name)\<close>: the value of the first pair of that name.\<close>

definition params_get :: "(string \<times> string) list \<Rightarrow> string \<Rightarrow> string option" where
  "params_get params name = map_of params name"

text \<open>
  \<^verbatim>\<open>
  const extractCode = (href) => {
    try {
      const qs = href.split("?")[1] || "";
      const params = new URLSearchParams(qs);
      return (params.get("code") || "").toUpperCase();
    } catch {
      return "";
    }
  };
  \<close>
  Nothing in the body throws on a string, so the \<open>catch\<close> branch has no counterpart.
\<close>

definition extractCode :: "string \<Rightarrow> string" where
  "extractCode href =
     (let qs = (case split_on CHR ''?'' href of _ # q # _ \<Rightarrow> q | _ \<Rightarrow> []);
          params = URLSearchParams qs
      in toUpperCase (case params_get params ''code'' of None \<Rightarrow> [] | Some v \<Rightarrow> v))"

section \<open>The parsed page\<close>

text \<open>
  What the handler reads of the document that cheerio parsed. Of a \<open>td\<close> cell: its text and
  the \<open>href\<close> of the first anchor inside it (\<open>None\<close> when there is no anchor or it has no
  \<open>href\<close>). Of a row: its \<open>td\<close> cells, what \<open>$(tr).find("td")\<close> selects. Of a table:
  \<open>headers\<close>, the texts of the elements that \<open>find("thead tr:first-child td, th")\<close> selects,
  and \<open>tbody\<close>, the rows that \<open>find("tbody tr")\<close> selects. The document is the list of its
  tables, what \<open>$("table")\<close> selects, in document order.
\<close>

record cell =
  cell_text :: string
  cell_href :: "string option"

type_synonym tr = "cell list"

record table =
  headers :: "string list"
  tbody :: "tr list"

type_synonym document = "table list"

fun starts_with :: "string \<Rightarrow> string \<Rightarrow> bool" where
  "starts_with s [] = True"
| "starts_with [] (p # ps) = False"
| "starts_with (c # s) (p # ps) = (c = p \<and> starts_with s ps)"

text \<open>\<open>s.includes(p)\<close>\<close>

fun includes_js :: "string \<Rightarrow> string \<Rightarrow> bool" where
  "includes_js [] p = (p = [])"
| "includes_js (c # s) p = (starts_with (c # s) p \<or> includes_js s p)"

text \<open>
  The predicate of the \<open>filter\<close> over the tables:
  \<^verbatim>\<open>
  const headers = $(tbl).find("thead tr:first-child td, th");
  const texts = headers.map((__, h) => $(h).text().toLowerCase()).get();
  return (
    headers.length >= 5 &&
    texts.some((t) => t.includes("company")) &&
    texts.some((t) => t.includes("price"))
  );
  \<close>
\<close>

definition is_listing :: "table \<Rightarrow> bool" where
  "is_listing tbl =
     (let texts = map toLowerCase (headers tbl)
      in 5 \<le> length (headers tbl) \<and>
         list_ex (\<lambda>t. includes_js t ''company'') texts \<and>
         list_ex (\<lambda>t. includes_js t ''price'') texts)"

text \<open>\<open>$("table").filter(...).first()\<close>: a selection of at most one table.\<close>

definition locate_table :: "document \<Rightarrow> table list" where
  "locate_table doc = take 1 (filter is_listing doc)"

text \<open>\<open>$table.find("tbody tr")\<close>: no rows when the selection is empty.\<close>

definition body_rows :: "table list \<Rightarrow> tr list" where
  "body_rows sel = concat (map tbody sel)"

text \<open>\<open>$td.eq(0).find("a").attr("href") || ""\<close> and \<open>$td.eq(i).text().trim()\<close>\<close>

definition td_href :: "tr \<Rightarrow> string" where
  "td_href r =
     (case r of [] \<Rightarrow> [] | c # _ \<Rightarrow> (case cell_href c of None \<Rightarrow> [] | Some h \<Rightarrow> h))"

definition td_text :: "tr \<Rightarrow> nat \<Rightarrow> string" where
  "td_text r i = (if i < length r then trim (cell_text (r ! i)) else [])"

section \<open>Payloads\<close>

record pricePayload =
  priceE6 :: int
  seq :: int
  ts :: int
  hcsMsgId :: string

record bandPayload =
  midE6 :: int
  widthBps :: int
  band_ts :: int

record tickerRecord =
  ticker :: string
  price :: rat
  day :: "rat option"
  ytd :: "rat option"

definition zero_bytes32 :: string where
  "zero_bytes32 = ''0x0000000000000000000000000000000000000000000000000000000000000000''"

text \<open>The arrays that the callback of \<open>each\<close> fills, and the lines of \<open>console.warn\<close>.\<close>

record scrape =
  rows :: "tickerRecord list"
  priceAssets :: "address list"
  pricePayloads :: "pricePayload list"
  bandAssets :: "address list"
  bandPayloads :: "bandPayload list"
  warnings :: "string list"

definition no_scrape :: scrape where
  "no_scrape = \<lparr>rows = [], priceAssets = [], pricePayloads = [], bandAssets = [],
                 bandPayloads = [], warnings = []\<rparr>"

text \<open>\<open>BigInt(Math.round(price * 1e6))\<close>; \<open>Math.round\<close> rounds a half up, as \<open>round\<close> does.\<close>

definition pxE6 :: "rat \<Rightarrow> int" where
  "pxE6 p = round (p * 1000000)"

text \<open>The pushes at the end of the callback, for the band width \<open>bps\<close> and the time stamp
  \<open>now\<close>.\<close>

definition push_row ::
  "int \<Rightarrow> int \<Rightarrow> string \<Rightarrow> rat \<Rightarrow> rat option \<Rightarrow> rat option \<Rightarrow> address \<Rightarrow> scrape \<Rightarrow> scrape" where
  "push_row bps now code p d y a acc =
     acc\<lparr>priceAssets := priceAssets acc @ [a],
         pricePayloads := pricePayloads acc @
           [\<lparr>priceE6 = pxE6 p, seq = now, ts = now, hcsMsgId = zero_bytes32\<rparr>],
         bandAssets := bandAssets acc @ [a],
         bandPayloads := bandPayloads acc @
           [\<lparr>midE6 = pxE6 p, widthBps = bps, band_ts = now\<rparr>],
         rows := rows acc @ [\<lparr>ticker = code, price = p, day = d, ytd = y\<rparr>]\<rparr>"

text \<open>
  What the callback decides before it pushes: \<open>Skip\<close> for a \<open>return\<close> without a trace,
  \<open>Unmapped\<close> for the \<open>return\<close> after the warning, \<open>Keep\<close> for a row that goes on.
  \<^verbatim>\<open>
  const $td = $(tr).find("td");
  const $a = $td.eq(0).find("a");
  const code = extractCode($a.attr("href") || "");
  if (!code || !TARGET_SET.has(code)) return;

  const price = toNumber($td.eq(2).text().trim());
  const day = parsePercent($td.eq(3).text().trim());
  const ytd = parsePercent($td.eq(4).text().trim());
  if (price == null) return;

  const assetAddress = process.env[code];
  if (!assetAddress) {
    console.warn(`No address configured for ${code}`);
    return;
  }
  \<close>
\<close>

datatype verdict =
    Skip
  | Unmapped string
  | Keep string rat "rat option" "rat option" address

definition judge_row :: "environment \<Rightarrow> tr \<Rightarrow> verdict" where
  "judge_row env r =
     (let code = extractCode (td_href r)
      in if code = [] \<or> code \<notin> TARGET_SET then Skip
         else
           let p = toNumber (td_text r 2);
               d = parsePercent (td_text r 3);
               y = parsePercent (td_text r 4)
           in (case p of
                 None \<Rightarrow> Skip
               | Some q \<Rightarrow>
                   (case env code of
                      None \<Rightarrow> Unmapped code
                    | Some a \<Rightarrow> if a = [] then Unmapped code else Keep code q d y a)))"

definition warn_unmapped :: "string \<Rightarrow> scrape \<Rightarrow> scrape" where
  "warn_unmapped code acc = acc\<lparr>warnings := warnings acc @ [''No address configured for '' @ code]\<rparr>"

text \<open>The callback where the time stamp was read before the loop (the module's \<open>now\<close>, or
  \<open>ts\<close> of \<open>nowSec\<close>).\<close>

definition each_row :: "environment \<Rightarrow> int \<Rightarrow> int \<Rightarrow> scrape \<Rightarrow> tr \<Rightarrow> scrape" where
  "each_row env bps now acc r =
     (case judge_row env r of
        Skip \<Rightarrow> acc
      | Unmapped code \<Rightarrow> warn_unmapped code acc
      | Keep code p d y a \<Rightarrow> push_row bps now code p d y a acc)"

definition scrape_rows :: "environment \<Rightarrow> int \<Rightarrow> int \<Rightarrow> tr list \<Rightarrow> scrape" where
  "scrape_rows env bps now trs = foldl (each_row env bps now) no_scrape trs"

section \<open>The outside world\<close>

text \<open>
  Every call that leaves the handler is an event, and the handler's state is the list of
  the events so far. What the outside answers is a function of that list, so the answer to
  a call may depend on every call before it. An error is the message of what was thrown.
\<close>

type_synonym error = string

datatype event =
    AxiosGet
  | GetBlock
  | DateNow
  | Fetch
  | SetPrices "address list" "pricePayload list"
  | SetBands "address list" "bandPayload list"
  | SetBand address bandPayload
  | SetPrice address pricePayload
  | MaxStaleness
  | GetBand address

text \<open>A transaction as the contract call returns it: its hash, and what \<open>tx.wait()\<close> gives
  (it throws, or it returns a receipt with a status).\<close>

record tx =
  tx_hash :: hash
  wait :: "error + int"

text \<open>The body of the rate service, as far as the handler reads it: \<open>null\<close>, an object
  without \<open>data\<close>, or an object with \<open>data\<close>, of which \<open>data.CNGN[0].quote.USD.price\<close> is
  read (\<open>None\<close> when the path ends early or the member is no number).\<close>

datatype cmc_body = BodyNull | BodyNoData | BodyPrice "rat option"

record fx_response =
  status :: int
  json :: "error + cmc_body"

record world =
  process_env :: environment
  connect :: "error option"
  axios_get :: "event list \<Rightarrow> error + document"
  getBlock :: "event list \<Rightarrow> error + int option"
  dateNow :: "event list \<Rightarrow> int"
  hasSetBands :: bool
  oracleHub :: "event list \<Rightarrow> event \<Rightarrow> error + tx"
  fetch :: "event list \<Rightarrow> error + fx_response"
  maxStaleness :: "event list \<Rightarrow> error + int"
  getBand :: "event list \<Rightarrow> address \<Rightarrow> error + int"

text \<open>
  \<open>connect\<close> is \<open>Some e\<close> when building the provider, the wallet or the contract throws;
  \<open>getBlock\<close> gives the time stamp of the latest block (\<open>None\<close> for no block or no time
  stamp); \<open>dateNow\<close> is \<open>Math.floor(Date.now() / 1000)\<close>; \<open>hasSetBands\<close> is
  \<open>typeof oracleHub.setBands === "function"\<close>.
\<close>

record success_body =
  pricesUpdated :: nat
  bandsUpdated :: nat
  priceTxHash :: "hash option"
  bandTxHash :: "hash option"
  bandWidthBps :: int

text \<open>The three bodies of \<open>NextResponse.json\<close>: the success with counts and hashes, the
  success with \<open>count\<close> alone of the first version of the handler, and the failure.\<close>

datatype response = Success success_body | Counted nat | Failure error

fun success :: "response \<Rightarrow> bool" where
  "success (Success _) = True"
| "success (Counted _) = True"
| "success (Failure _) = False"

section \<open>Time stamps\<close>

text \<open>
  \<^verbatim>\<open>
  async function nowSec(provider) {
    try {
      const b = await provider.getBlock("latest");
      if (b && b.timestamp) return BigInt(b.timestamp);
    } catch (e) {
      /* ignore */
    }
    return BigInt(Math.floor(Date.now() / 1000));
  }
  \<close>
\<close>

definition nowSec :: "world \<Rightarrow> event list \<Rightarrow> int \<times> event list" where
  "nowSec w tr =
     (case getBlock w tr of
        Inr (Some t) \<Rightarrow>
          if t \<noteq> 0 then (t, tr @ [GetBlock])
          else (dateNow w (tr @ [GetBlock]), tr @ [GetBlock, DateNow])
      | _ \<Rightarrow> (dateNow w (tr @ [GetBlock]), tr @ [GetBlock, DateNow]))"

text \<open>The callback of the handlers that read the clock in every row they keep:
  \<open>const now = Math.floor(Date.now() / 1000)\<close> after the lookup of the address.\<close>

definition each_row_clock ::
  "world \<Rightarrow> int \<Rightarrow> scrape \<times> event list \<Rightarrow> tr \<Rightarrow> scrape \<times> event list" where
  "each_row_clock w bps st r =
     (case st of
        (acc, tr) \<Rightarrow>
          (case judge_row (process_env w) r of
             Skip \<Rightarrow> (acc, tr)
           | Unmapped code \<Rightarrow> (warn_unmapped code acc, tr)
           | Keep code p d y a \<Rightarrow> (push_row bps (dateNow w tr) code p d y a acc, tr @ [DateNow])))"

definition scrape_rows_clock ::
  "world \<Rightarrow> int \<Rightarrow> event list \<Rightarrow> tr list \<Rightarrow> scrape \<times> event list" where
  "scrape_rows_clock w bps tr trs = foldl (each_row_clock w bps) (no_scrape, tr) trs"

text \<open>The first version of the handler has the arrays \<open>assets\<close> and \<open>payloads\<close> only; they are
  \<open>priceAssets\<close> and \<open>pricePayloads\<close> here.\<close>

definition push_price :: "int \<Rightarrow> string \<Rightarrow> rat \<Rightarrow> rat option \<Rightarrow> rat option \<Rightarrow> address \<Rightarrow> scrape \<Rightarrow> scrape" where
  "push_price now code p d y a acc =
     acc\<lparr>priceAssets := priceAssets acc @ [a],
         pricePayloads := pricePayloads acc @
           [\<lparr>priceE6 = pxE6 p, seq = now, ts = now, hcsMsgId = zero_bytes32\<rparr>],
         rows := rows acc @ [\<lparr>ticker = code, price = p, day = d, ytd = y\<rparr>]\<rparr>"

definition each_row_prices ::
  "world \<Rightarrow> scrape \<times> event list \<Rightarrow> tr \<Rightarrow> scrape \<times> event list" where
  "each_row_prices w st r =
     (case st of
        (acc, tr) \<Rightarrow>
          (case judge_row (process_env w) r of
             Skip \<Rightarrow> (acc, tr)
           | Unmapped code \<Rightarrow> (warn_unmapped code acc, tr)
           | Keep code p d y a \<Rightarrow> (push_price (dateNow w tr) code p d y a acc, tr @ [DateNow])))"

section \<open>Oracle submitter\<close>

text \<open>\<open>const tx = await oracleHub.f(...); const rec = await tx.wait();\<close> and then \<open>tx.hash\<close>:
  the call is issued, and either step may throw.\<close>

definition send :: "world \<Rightarrow> event list \<Rightarrow> event \<Rightarrow> (error + hash) \<times> event list" where
  "send w tr c =
     ((case oracleHub w tr c of
         Inl e \<Rightarrow> Inl e
       | Inr t \<Rightarrow> (case wait t of Inl e \<Rightarrow> Inl e | Inr st \<Rightarrow> Inr (tx_hash t))),
      tr @ [c])"

text \<open>
  \<^verbatim>\<open>
  let priceTxHash = null;
  if (priceAssets.length > 0) {
    const tx = await oracleHub.setPrices(priceAssets, pricePayloads);
    const rec = await tx.wait();
    priceTxHash = tx.hash;
  } else {
    console.warn("No prices to update");
  }
  \<close>
\<close>

definition price_phase ::
  "world \<Rightarrow> event list \<Rightarrow> address list \<Rightarrow> pricePayload list \<Rightarrow> (error + hash option) \<times> event list" where
  "price_phase w tr assets payloads =
     (if assets \<noteq> [] then
        (case send w tr (SetPrices assets payloads) of
           (Inl e, tr') \<Rightarrow> (Inl e, tr')
         | (Inr h, tr') \<Rightarrow> (Inr (Some h), tr'))
      else (Inr None, tr))"

text \<open>
  The loop over the assets, from the value \<open>h\<close> of \<open>bandTxHash\<close>. Nothing inside the loop
  catches: what a call throws leaves the loop.
  \<^verbatim>\<open>
  for (let i = 0; i < bandAssets.length; i++) {
    const tx1 = await oracleHub.setBand(bandAssets[i], bandPayloads[i]);
    const r1 = await tx1.wait();
    bandTxHash = tx1.hash;
  }
  \<close>
  The two arrays are filled by the same pushes and have the same length, so the pairs
  \<open>(bandAssets[i], bandPayloads[i])\<close> are those of \<open>zip\<close>.
\<close>

fun setBand_loop ::
  "world \<Rightarrow> event list \<Rightarrow> (address \<times> bandPayload) list \<Rightarrow> hash option \<Rightarrow>
     (error + hash option) \<times> event list" where
  "setBand_loop w tr [] h = (Inr h, tr)"
| "setBand_loop w tr ((a, p) # rest) h =
     (case send w tr (SetBand a p) of
        (Inl e, tr') \<Rightarrow> (Inl e, tr')
      | (Inr h', tr') \<Rightarrow> setBand_loop w tr' rest (Some h'))"

text \<open>
  \<^verbatim>\<open>
  let bandTxHash = null;
  if (bandAssets.length > 0) {
    if (typeof oracleHub.setBands === "function") {
      try {
        const txb = await oracleHub.setBands(bandAssets, bandPayloads);
        const r = await txb.wait();
        bandTxHash = txb.hash;
      } catch (e) {
        for (...) { ... }
      }
    } else {
      for (...) { ... }
    }
  } else {
    console.warn("No bands to update");
  }
  \<close>
\<close>

definition band_phase ::
  "world \<Rightarrow> event list \<Rightarrow> address list \<Rightarrow> bandPayload list \<Rightarrow> (error + hash option) \<times> event list" where
  "band_phase w tr assets payloads =
     (if assets \<noteq> [] then
        (if hasSetBands w then
           (case send w tr (SetBands assets payloads) of
              (Inr h, tr') \<Rightarrow> (Inr (Some h), tr')
            | (Inl e, tr') \<Rightarrow> setBand_loop w tr' (zip assets payloads) None)
         else setBand_loop w tr (zip assets payloads) None)
      else (Inr None, tr))"

section \<open>FX side channel\<close>

definition ngnAsset :: address where
  "ngnAsset = ''0x00000000000000000000000000000000006a1e8c''"

text \<open>Two decimals, a half rounded up: \<open>Math.round(x * 1e2) / 1e2\<close>, and the number that
  \<open>x.toFixed(2)\<close> writes, for a positive \<open>x\<close>.\<close>

definition round2 :: "rat \<Rightarrow> rat" where
  "round2 x = of_int (round (x * 100)) / 100"

text \<open>
  The rate of the handler with \<open>nowSec\<close>:
  \<^verbatim>\<open>
  let rateNum = 1500; // default NGN per USD
  if (r.status === 200) {
    const body = await r.json();
    const priceUSD = body?.data?.["CNGN"]?.[0]?.quote?.["USD"]?.price;
    if (priceUSD > 0) {
      rateNum = Number(1 / priceUSD);
      rateNum = Math.round(rateNum * 1e2) / 1e2; // 2dp for stability
    }
  } else { console.warn(...); }
  \<close>
\<close>

definition fx_rate_chain :: "fx_response \<Rightarrow> error + rat" where
  "fx_rate_chain r =
     (if status r = 200 then
        (case json r of
           Inl e \<Rightarrow> Inl e
         | Inr body \<Rightarrow>
             (case body of
                BodyPrice (Some p) \<Rightarrow> if 0 < p then Inr (round2 (1 / p)) else Inr 1500
              | _ \<Rightarrow> Inr 1500))
      else Inr 1500)"

text \<open>
  The rate of \<open>route.js\<close>; \<open>body?.data["CNGN"]\<close> throws a \<open>TypeError\<close> on a body without
  \<open>data\<close>.
  \<^verbatim>\<open>
  let rate = 1500; // Set default rate so Oracle doesnt fail
  if (r.status == 200) {
    const body = await r.json();
    const price = body?.data["CNGN"]?.[0]?.quote?.["USD"]?.price;
    if (price > 0) {
      rate = Number(1 / price).toFixed(2);
    }
  }
  \<close>
\<close>

definition fx_rate_run :: "fx_response \<Rightarrow> error + rat" where
  "fx_rate_run r =
     (if status r = 200 then
        (case json r of
           Inl e \<Rightarrow> Inl e
         | Inr body \<Rightarrow>
             (case body of
                BodyNull \<Rightarrow> Inr 1500
              | BodyNoData \<Rightarrow> Inl ''Cannot read properties of undefined (reading 'CNGN')''
              | BodyPrice None \<Rightarrow> Inr 1500
              | BodyPrice (Some p) \<Rightarrow> if 0 < p then Inr (round2 (1 / p)) else Inr 1500))
      else Inr 1500)"

text \<open>
  \<^verbatim>\<open>
  const tx3 = await oracleHub.setPrice(ngnAsset, priceLoad);
  const r3 = await tx3.wait();
  const tx4 = await oracleHub.setBand(ngnAsset, bandLoad);
  const r4 = await tx4.wait();
  bandTxHash = tx4.hash;
  \<close>
  The result is the hash that is assigned to \<open>bandTxHash\<close>, or what was thrown.
\<close>

definition fx_submit ::
  "world \<Rightarrow> event list \<Rightarrow> int \<Rightarrow> int \<Rightarrow> int \<Rightarrow> (error + hash) \<times> event list" where
  "fx_submit w tr bps tsFx rateE6 =
     (let bandLoad = \<lparr>midE6 = rateE6, widthBps = bps, band_ts = tsFx\<rparr>;
          priceLoad = \<lparr>priceE6 = rateE6, seq = tsFx, ts = tsFx, hcsMsgId = zero_bytes32\<rparr>
      in case send w tr (SetPrice ngnAsset priceLoad) of
           (Inl e, tr') \<Rightarrow> (Inl e, tr')
         | (Inr h3, tr') \<Rightarrow> send w tr' (SetBand ngnAsset bandLoad))"

text \<open>The body of the \<open>try\<close> of the handler with \<open>nowSec\<close>; \<open>rateE6\<close> is
  \<open>BigInt(Math.round(rateNum * 1e6))\<close>.\<close>

definition fx_phase_chain :: "world \<Rightarrow> event list \<Rightarrow> int \<Rightarrow> (error + hash) \<times> event list" where
  "fx_phase_chain w tr bps =
     (case nowSec w tr of
        (tsFx, tr1) \<Rightarrow>
          (case fetch w tr1 of
             Inl e \<Rightarrow> (Inl e, tr1 @ [Fetch])
           | Inr r \<Rightarrow>
               (case fx_rate_chain r of
                  Inl e \<Rightarrow> (Inl e, tr1 @ [Fetch])
                | Inr rateNum \<Rightarrow> fx_submit w (tr1 @ [Fetch]) bps tsFx (round (rateNum * 1000000)))))"

text \<open>The body of the \<open>try\<close> of \<open>route.js\<close>, with the module's \<open>now\<close>; \<open>rateE6\<close> is
  \<open>rate * 1e6\<close>, a whole number since \<open>rate\<close> has two decimals.\<close>

definition fx_phase_run :: "world \<Rightarrow> event list \<Rightarrow> int \<Rightarrow> int \<Rightarrow> (error + hash) \<times> event list" where
  "fx_phase_run w tr bps now =
     (case fetch w tr of
        Inl e \<Rightarrow> (Inl e, tr @ [Fetch])
      | Inr r \<Rightarrow>
          (case fx_rate_run r of
             Inl e \<Rightarrow> (Inl e, tr @ [Fetch])
           | Inr rate \<Rightarrow> fx_submit w (tr @ [Fetch]) bps now \<lfloor>rate * 1000000\<rfloor>))"

section \<open>Freshness audit\<close>

text \<open>
  \<^verbatim>\<open>
  try {
    const maxStale = await oracleHub.maxStaleness();
    const nowChain = await nowSec(provider);
    for (const a of bandAssets) {
      const b = await oracleHub.getBand(a);
      const fresh = nowChain <= BigInt(b.ts) + BigInt(maxStale);
      console.log(...);
    }
  } catch (e) { /* optional */ }
  \<close>
  The audit only reads and logs: of its effects the model keeps the calls.
\<close>

fun audit_loop :: "world \<Rightarrow> event list \<Rightarrow> address list \<Rightarrow> event list" where
  "audit_loop w tr [] = tr"
| "audit_loop w tr (a # rest) =
     (case getBand w tr a of
        Inl e \<Rightarrow> tr @ [GetBand a]
      | Inr b \<Rightarrow> audit_loop w (tr @ [GetBand a]) rest)"

definition audit :: "world \<Rightarrow> event list \<Rightarrow> address list \<Rightarrow> event list" where
  "audit w tr assets =
     (case maxStaleness w tr of
        Inl e \<Rightarrow> tr @ [MaxStaleness]
      | Inr maxStale \<Rightarrow>
          (case nowSec w (tr @ [MaxStaleness]) of (nowChain, tr1) \<Rightarrow> audit_loop w tr1 assets))"

section \<open>The handlers\<close>

text \<open>
  The start that all versions of \<open>GET\<close> share: the private key, the provider, wallet and
  contract, the page, and the selection \<open>$table\<close>.
\<close>

definition front :: "world \<Rightarrow> (error + table list) \<times> event list" where
  "front w =
     (case process_env w ''PRIVATE_KEY'' of
        None \<Rightarrow> (Inl ''Private key missing'', [])
      | Some k \<Rightarrow>
          if k = [] then (Inl ''Private key missing'', [])
          else
            (case connect w of
               Some e \<Rightarrow> (Inl e, [])
             | None \<Rightarrow>
                 (case axios_get w [] of
                    Inl e \<Rightarrow> (Inl e, [AxiosGet])
                  | Inr doc \<Rightarrow> (Inr (locate_table doc), [AxiosGet]))))"

definition table_not_found :: error where
  "table_not_found = ''Could not locate listings table''"

text \<open>The price phase and then the band phase; what either throws reaches the outer
  \<open>catch\<close>.\<close>

definition submit ::
  "world \<Rightarrow> event list \<Rightarrow> scrape \<Rightarrow> (error + hash option \<times> hash option) \<times> event list" where
  "submit w tr s =
     (case price_phase w tr (priceAssets s) (pricePayloads s) of
        (Inl e, tr1) \<Rightarrow> (Inl e, tr1)
      | (Inr ph, tr1) \<Rightarrow>
          (case band_phase w tr1 (bandAssets s) (bandPayloads s) of
             (Inl e, tr2) \<Rightarrow> (Inl e, tr2)
           | (Inr bh, tr2) \<Rightarrow> (Inr (ph, bh), tr2)))"

definition respond :: "int \<Rightarrow> scrape \<Rightarrow> hash option \<Rightarrow> hash option \<Rightarrow> response" where
  "respond bps s ph bh =
     Success \<lparr>pricesUpdated = length (priceAssets s), bandsUpdated = length (bandAssets s),
              priceTxHash = ph, bandTxHash = bh, bandWidthBps = bps\<rparr>"

text \<open>\<open>bandTxHash\<close> after the \<open>try\<close> of the FX phase: assigned when the phase came to its
  end, left alone when it threw.\<close>

definition after_fx :: "hash option \<Rightarrow> error + hash \<Rightarrow> hash option" where
  "after_fx bh fx = (case fx of Inl e \<Rightarrow> bh | Inr h \<Rightarrow> Some h)"

text \<open>
  \<open>GET\<close> of the handler with \<open>nowSec\<close> (chain time, FX phase, freshness audit), for the
  band width \<open>bps\<close> of \<open>DEFAULT_BAND_WIDTH_BPS\<close>; \<open>ts0\<close> is the handler's \<open>ts\<close>. The result is the
  response and the calls made.
\<close>

definition GET_chain :: "int \<Rightarrow> world \<Rightarrow> response \<times> event list" where
  "GET_chain bps w =
     (case front w of
        (Inl e, tr) \<Rightarrow> (Failure e, tr)
      | (Inr sel, tr) \<Rightarrow>
          if sel = [] then (Failure table_not_found, tr)
          else
            (case nowSec w tr of
               (ts0, tr1) \<Rightarrow>
                 (let s = scrape_rows (process_env w) bps ts0 (body_rows sel)
                  in case submit w tr1 s of
                       (Inl e, tr2) \<Rightarrow> (Failure e, tr2)
                     | (Inr (ph, bh), tr2) \<Rightarrow>
                         (case fx_phase_chain w tr2 bps of
                            (fx, tr3) \<Rightarrow>
                              (respond bps s ph (after_fx bh fx), audit w tr3 (bandAssets s))))))"

text \<open>
  \<open>GET\<close> of \<open>route.js\<close>, first listing: the time stamp is the constant \<open>now\<close> that the module
  computes when it is loaded, and the FX phase follows the band phase.
\<close>

definition GET_run :: "int \<Rightarrow> int \<Rightarrow> world \<Rightarrow> response \<times> event list" where
  "GET_run bps now w =
     (case front w of
        (Inl e, tr) \<Rightarrow> (Failure e, tr)
      | (Inr sel, tr) \<Rightarrow>
          if sel = [] then (Failure table_not_found, tr)
          else
            (let s = scrape_rows (process_env w) bps now (body_rows sel)
             in case submit w tr s of
                  (Inl e, tr2) \<Rightarrow> (Failure e, tr2)
                | (Inr (ph, bh), tr2) \<Rightarrow>
                    (case fx_phase_run w tr2 bps now of
                       (fx, tr3) \<Rightarrow> (respond bps s ph (after_fx bh fx), tr3))))"

text \<open>
  \<open>GET\<close> of \<open>route.js\<close>, second listing: the clock is read in every row that is kept, and
  there is no FX phase.
\<close>

definition GET_run2 :: "int \<Rightarrow> world \<Rightarrow> response \<times> event list" where
  "GET_run2 bps w =
     (case front w of
        (Inl e, tr) \<Rightarrow> (Failure e, tr)
      | (Inr sel, tr) \<Rightarrow>
          if sel = [] then (Failure table_not_found, tr)
          else
            (case scrape_rows_clock w bps tr (body_rows sel) of
               (s, tr1) \<Rightarrow>
                 (case submit w tr1 s of
                    (Inl e, tr2) \<Rightarrow> (Failure e, tr2)
                  | (Inr (ph, bh), tr2) \<Rightarrow> (respond bps s ph bh, tr2))))"

text \<open>
  \<open>GET\<close> of the first version (prices only). Its test of the selection is
  \<open>if (!$table) throw new Error("Could not locate listings table")\<close>: a cheerio selection
  is an object, so \<open>!$table\<close> is false for the empty selection too and nothing is thrown.
  \<^verbatim>\<open>
  if (assets.length > 0) {
    const tx = await oracleHub.setPrices(assets, payloads);
    await tx.wait();
  } else {
    console.warn("No prices to update");
  }
  return NextResponse.json({ success: true, count: assets.length }, { status: 200 });
  \<close>
\<close>

definition GET_prices :: "world \<Rightarrow> response \<times> event list" where
  "GET_prices w =
     (case front w of
        (Inl e, tr) \<Rightarrow> (Failure e, tr)
      | (Inr sel, tr) \<Rightarrow>
          (case foldl (each_row_prices w) (no_scrape, tr) (body_rows sel) of
             (s, tr1) \<Rightarrow>
               (case price_phase w tr1 (priceAssets s) (pricePayloads s) of
                  (Inl e, tr2) \<Rightarrow> (Failure e, tr2)
                | (Inr ph, tr2) \<Rightarrow> (Counted (length (priceAssets s)), tr2))))"

section \<open>Vocabulary of the properties\<close>

text \<open>A row passes when its code is on the watchlist, its price text parses and its code
  has an address in the environment; \<open>row_price\<close> is its parsed price.\<close>

definition passes :: "environment \<Rightarrow> tr \<Rightarrow> bool" where
  "passes env r =
     (extractCode (td_href r) \<noteq> [] \<and> extractCode (td_href r) \<in> TARGET_SET \<and>
      toNumber (td_text r 2) \<noteq> None \<and>
      (case env (extractCode (td_href r)) of None \<Rightarrow> False | Some a \<Rightarrow> a \<noteq> []))"

definition row_price :: "tr \<Rightarrow> rat" where
  "row_price r = (case toNumber (td_text r 2) of None \<Rightarrow> 0 | Some q \<Rightarrow> q)"

text \<open>The two payloads that a passing row gets, for the time stamp \<open>now\<close>.\<close>

definition price_of :: "int \<Rightarrow> tr \<Rightarrow> pricePayload" where
  "price_of now r = \<lparr>priceE6 = pxE6 (row_price r), seq = now, ts = now, hcsMsgId = zero_bytes32\<rparr>"

definition band_of :: "int \<Rightarrow> int \<Rightarrow> tr \<Rightarrow> bandPayload" where
  "band_of bps now r = \<lparr>midE6 = pxE6 (row_price r), widthBps = bps, band_ts = now\<rparr>"

text \<open>The per-asset calls for a list of pairs, and the outcome of the call for pair \<open>k\<close> when
  the calls for the pairs before it have been made after \<open>tr\<close>.\<close>

definition band_calls :: "(address \<times> bandPayload) list \<Rightarrow> event list" where
  "band_calls zs = map (\<lambda>z. SetBand (fst z) (snd z)) zs"

definition nth_call :: "world \<Rightarrow> event list \<Rightarrow> (address \<times> bandPayload) list \<Rightarrow> nat \<Rightarrow> error + hash" where
  "nth_call w tr zs k =
     fst (send w (tr @ band_calls (take k zs)) (SetBand (fst (zs ! k)) (snd (zs ! k))))"

text \<open>The calls made when the per-asset loop starts: the bulk call has been tried first where
  the contract has it.\<close>

definition fallback_start :: "world \<Rightarrow> event list \<Rightarrow> address list \<Rightarrow> bandPayload list \<Rightarrow> event list" where
  "fallback_start w tr assets payloads =
     (if hasSetBands w then tr @ [SetBands assets payloads] else tr)"

text \<open>
  \<open>parsePercent\<close> as the specification words it: strip white space, commas, \<open>%\<close> and a
  leading \<open>+\<close>; take the sign from the leading \<open>-\<close> of the original; divide the magnitude by
  100 and put the sign back; \<open>-\<close>, nothing, or what is no number gives null.
\<close>

definition strip_ws_commas_percent :: "string \<Rightarrow> string" where
  "strip_ws_commas_percent txt =
     filter (\<lambda>c. \<not> is_ws c \<and> c \<noteq> CHR '','' \<and> c \<noteq> CHR ''%'') txt"

definition drop_leading_plus :: "string \<Rightarrow> string" where
  "drop_leading_plus s = (case s of [] \<Rightarrow> [] | c # r \<Rightarrow> if c = CHR ''+'' then r else s)"

definition parsePercent_spec :: "string \<Rightarrow> rat option" where
  "parsePercent_spec txt =
     (let t = drop_leading_plus (strip_ws_commas_percent txt)
      in if t = ''-'' \<or> t = [] then None
         else (case js_Number (drop_leading_minus t) of
                 Fin n \<Rightarrow> Some ((n / 100) * (if leading_minus (trim txt) then - 1 else 1))
               | _ \<Rightarrow> None))"

section \<open>Example inputs\<close>

definition td :: "string \<Rightarrow> cell" where
  "td s = \<lparr>cell_text = s, cell_href = None\<rparr>"

definition listing_row :: "string \<Rightarrow> string \<Rightarrow> tr" where
  "listing_row href p =
     [\<lparr>cell_text = ''Name'', cell_href = Some href\<rparr>, td ''Sector'', td p, td ''+1.20%'',
      td ''-3.40%'']"

text \<open>The row of the end-to-end example of the specification, a row of the watchlist with
  a negative price, a second row of the watchlist, and a row off the watchlist.\<close>

definition mtnn_row :: tr where
  "mtnn_row = listing_row ''/en/stock?code=mtnn'' ''250.50''"

definition neg_row :: tr where
  "neg_row = listing_row ''/en/stock?code=MTNN'' ''-5''"

definition uba_row :: tr where
  "uba_row = listing_row ''/en/stock?code=UBA'' ''1,234.50''"

definition off_row :: tr where
  "off_row = listing_row ''/en/stock?code=ACME'' ''10''"

definition ex_headers :: "string list" where
  "ex_headers = [''Company'', ''Sector'', ''Price'', ''1D'', ''YTD'']"

definition ex_env :: environment where
  "ex_env = [''PRIVATE_KEY'' \<mapsto> ''0x01'', ''MTNN'' \<mapsto> ''0xAAA'', ''UBA'' \<mapsto> ''0xBBB'']"

definition ex_tx :: "hash \<Rightarrow> tx" where
  "ex_tx h = \<lparr>tx_hash = h, wait = Inr 1\<rparr>"

text \<open>An oracle whose bulk band call reverts and whose other calls are confirmed; the hash
  of a per-asset band call ends in the asset.\<close>

definition ex_oracle :: "event list \<Rightarrow> event \<Rightarrow> error + tx" where
  "ex_oracle tr c =
     (case c of
        SetPrices assets payloads \<Rightarrow> Inr (ex_tx ''0xp'')
      | SetBands assets payloads \<Rightarrow> Inl ''setBands reverted''
      | SetBand a p \<Rightarrow> Inr (ex_tx (''0xb'' @ a))
      | SetPrice a p \<Rightarrow> Inr (ex_tx ''0xf'')
      | _ \<Rightarrow> Inl ''not a write'')"

text \<open>An oracle without the bulk band call, whose per-asset call reverts for the asset
  \<open>0xAAA\<close>.\<close>

definition failing_oracle :: "event list \<Rightarrow> event \<Rightarrow> error + tx" where
  "failing_oracle tr c =
     (case c of
        SetBand a p \<Rightarrow> if a = ''0xAAA'' then Inl ''setBand reverted'' else Inr (ex_tx (''0xb'' @ a))
      | _ \<Rightarrow> Inr (ex_tx ''0xp''))"

text \<open>A world with the page of \<open>trs\<close>, the chain at 1700000000, a clock that starts at 100
  and ticks with every reading, and a rate service that cannot be reached.\<close>

definition ex_world :: "tr list \<Rightarrow> world" where
  "ex_world trs =
     \<lparr>process_env = ex_env, connect = None,
      axios_get = (\<lambda>tr. Inr [\<lparr>headers = ex_headers, tbody = trs\<rparr>]),
      getBlock = (\<lambda>tr. Inr (Some 1700000000)),
      dateNow = (\<lambda>tr. 100 + int (length (filter (\<lambda>e. e = DateNow) tr))),
      hasSetBands = True,
      oracleHub = ex_oracle,
      fetch = (\<lambda>tr. Inl ''fetch failed''),
      maxStaleness = (\<lambda>tr. Inr 300),
      getBand = (\<lambda>tr a. Inr 1700000000)\<rparr>"

text \<open>The same world with a rate service that answers 1/1500 USD for one NGN.\<close>

definition fx_world :: "tr list \<Rightarrow> world" where
  "fx_world trs =
     (ex_world trs)\<lparr>fetch := (\<lambda>tr. Inr \<lparr>status = 200, json = Inr (BodyPrice (Some (1 / 1500)))\<rparr>)\<rparr>"

text \<open>The world of a contract without the bulk band call, whose per-asset call reverts for
  the first asset.\<close>

definition failing_world :: "tr list \<Rightarrow> world" where
  "failing_world trs = (ex_world trs)\<lparr>hasSetBands := False, oracleHub := failing_oracle\<rparr>"

text \<open>A world whose page has no table at all.\<close>

definition bare_world :: world where
  "bare_world = (ex_world [])\<lparr>axios_get := (\<lambda>tr. Inr [])\<rparr>"

text \<open>The calls that the example worlds see for the rows \<open>mtnn_row\<close> and \<open>uba_row\<close>: the bulk
  price call, the bulk band call with the two per-asset calls after it, and the two calls of
  the FX phase at the rate 1500.\<close>

definition two_prices :: "int \<Rightarrow> event" where
  "two_prices now = SetPrices [''0xAAA'', ''0xBBB''] [price_of now mtnn_row, price_of now uba_row]"

definition two_bands :: "int \<Rightarrow> int \<Rightarrow> event list" where
  "two_bands bps now =
     [SetBands [''0xAAA'', ''0xBBB''] [band_of bps now mtnn_row, band_of bps now uba_row],
      SetBand ''0xAAA'' (band_of bps now mtnn_row), SetBand ''0xBBB'' (band_of bps now uba_row)]"

definition fx_calls :: "int \<Rightarrow> int \<Rightarrow> event list" where
  "fx_calls bps now =
     [SetPrice ngnAsset \<lparr>priceE6 = 1500000000, seq = now, ts = now, hcsMsgId = zero_bytes32\<rparr>,
      SetBand ngnAsset \<lparr>midE6 = 1500000000, widthBps = bps, band_ts = now\<rparr>]"

section \<open>The payload builder keeps one entry per passing row\<close>

lemma judge_row_passes:
  "passes env r \<Longrightarrow>
     \<exists>a. env (extractCode (td_href r)) = Some a \<and> a \<noteq> [] \<and>
         judge_row env r =
           Keep (extractCode (td_href r)) (row_price r) (parsePercent (td_text r 3))
             (parsePercent (td_text r 4)) a"
  by (auto simp: passes_def judge_row_def row_price_def Let_def split: option.splits)

lemma judge_row_not_passes:
  "\<not> passes env r \<Longrightarrow> judge_row env r = Skip \<or> (\<exists>c. judge_row env r = Unmapped c)"
  by (auto simp: passes_def judge_row_def Let_def split: option.splits)

lemma each_row_passes:
  assumes "passes env r"
  shows "pricePayloads (each_row env bps now acc r) = pricePayloads acc @ [price_of now r]"
    and "bandPayloads (each_row env bps now acc r) = bandPayloads acc @ [band_of bps now r]"
    and "length (priceAssets (each_row env bps now acc r)) = Suc (length (priceAssets acc))"
    and "length (bandAssets (each_row env bps now acc r)) = Suc (length (bandAssets acc))"
    and "bandAssets (each_row env bps now acc r) = priceAssets (each_row env bps now acc r)
           \<longleftrightarrow> bandAssets acc = priceAssets acc"
  using judge_row_passes [OF assms]
  by (auto simp: each_row_def push_row_def price_of_def band_of_def)

lemma each_row_not_passes:
  assumes "\<not> passes env r"
  shows "pricePayloads (each_row env bps now acc r) = pricePayloads acc"
    and "bandPayloads (each_row env bps now acc r) = bandPayloads acc"
    and "priceAssets (each_row env bps now acc r) = priceAssets acc"
    and "bandAssets (each_row env bps now acc r) = bandAssets acc"
  using judge_row_not_passes [OF assms]
  by (auto simp: each_row_def warn_unmapped_def)

lemma foldl_each_row:
  "pricePayloads (foldl (each_row env bps now) acc trs) =
     pricePayloads acc @ map (price_of now) (filter (passes env) trs) \<and>
   bandPayloads (foldl (each_row env bps now) acc trs) =
     bandPayloads acc @ map (band_of bps now) (filter (passes env) trs) \<and>
   length (priceAssets (foldl (each_row env bps now) acc trs)) =
     length (priceAssets acc) + length (filter (passes env) trs) \<and>
   length (bandAssets (foldl (each_row env bps now) acc trs)) =
     length (bandAssets acc) + length (filter (passes env) trs)"
proof (induction trs arbitrary: acc)
  case Nil
  show ?case by simp
next
  case (Cons r trs)
  show ?case
  proof (cases "passes env r")
    case True
    with Cons [of "each_row env bps now acc r"] show ?thesis
      by (simp add: each_row_passes)
  next
    case False
    with Cons [of "each_row env bps now acc r"] show ?thesis
      by (simp add: each_row_not_passes)
  qed
qed

lemma scrape_rows_payloads:
  "pricePayloads (scrape_rows env bps now trs) = map (price_of now) (filter (passes env) trs)"
  "bandPayloads (scrape_rows env bps now trs) = map (band_of bps now) (filter (passes env) trs)"
  "length (priceAssets (scrape_rows env bps now trs)) = length (filter (passes env) trs)"
  "length (bandAssets (scrape_rows env bps now trs)) = length (filter (passes env) trs)"
  using foldl_each_row [of env bps now no_scrape trs]
  by (simp_all add: scrape_rows_def no_scrape_def)


section \<open>The example rows, evaluated\<close>

lemmas number_defs = str_unsigned_decimal_def Let_def is_digit_def digits_val_def hex_val_def
  digit_val_def exponent_part_def pow10_def

lemma trim_plain [simp]:
  "trim ''250.50'' = ''250.50''" "trim ''-5'' = ''-5''" "trim ''1,234.50'' = ''1,234.50''"
  "trim ''10'' = ''10''" "trim ''1234.50'' = ''1234.50''" "trim ''+1.20%'' = ''+1.20%''" "trim ''-3.40%'' = ''-3.40%''"
  by (simp_all add: trim_def is_ws_def)

lemma js_Number_examples:
  "js_Number ''250.50'' = Fin (501 / 2)"
  "js_Number ''-5'' = Fin (- 5)"
  "js_Number ''1234.50'' = Fin (2469 / 2)"
  "js_Number ''10'' = Fin 10"
  by (simp_all add: js_Number_def non_decimal_def number_defs)

lemma toNumber_examples:
  "toNumber ''250.50'' = Some (501 / 2)"
  "toNumber ''-5'' = Some (- 5)"
  "toNumber ''1,234.50'' = Some (2469 / 2)"
  "toNumber ''10'' = Some 10"
  by (simp_all add: toNumber_def strip_commas_spaces_def js_Number_examples)

lemma split_examples:
  "split_on CHR ''?'' ''/en/stock?code=mtnn'' = [''/en/stock'', ''code=mtnn'']"
  "split_on CHR ''?'' ''/en/stock?code=MTNN'' = [''/en/stock'', ''code=MTNN'']"
  "split_on CHR ''?'' ''/en/stock?code=UBA'' = [''/en/stock'', ''code=UBA'']"
  "split_on CHR ''?'' ''/en/stock?code=ACME'' = [''/en/stock'', ''code=ACME'']"
  by simp_all

lemma params_examples:
  "URLSearchParams ''code=mtnn'' = [(''code'', ''mtnn'')]"
  "URLSearchParams ''code=MTNN'' = [(''code'', ''MTNN'')]"
  "URLSearchParams ''code=UBA'' = [(''code'', ''UBA'')]"
  "URLSearchParams ''code=ACME'' = [(''code'', ''ACME'')]"
  by (simp_all add: URLSearchParams_def name_value_def form_decode_def)

lemma extractCode_examples:
  "extractCode ''/en/stock?code=mtnn'' = ''MTNN''"
  "extractCode ''/en/stock?code=MTNN'' = ''MTNN''"
  "extractCode ''/en/stock?code=UBA'' = ''UBA''"
  "extractCode ''/en/stock?code=ACME'' = ''ACME''"
  by (simp_all add: extractCode_def split_examples params_examples params_get_def toUpperCase_def ascii_lower_def ascii_upper_def)

lemma watchlist_examples:
  "''MTNN'' \<in> TARGET_SET" "''UBA'' \<in> TARGET_SET" "''ACME'' \<notin> TARGET_SET"
  by (simp_all add: TARGET_SET_def TARGETS_def)

lemma listing_row_cells:
  "td_href (listing_row h p) = h"
  "td_text (listing_row h p) 2 = trim p"
  "td_text (listing_row h p) 3 = ''+1.20%''"
  "td_text (listing_row h p) 4 = ''-3.40%''"
  by (simp_all add: listing_row_def td_href_def td_text_def td_def)

lemma passes_examples:
  "passes ex_env mtnn_row" "passes ex_env uba_row" "passes ex_env neg_row" "\<not> passes ex_env off_row"
  by (simp_all add: passes_def mtnn_row_def uba_row_def neg_row_def off_row_def listing_row_cells
      extractCode_examples watchlist_examples toNumber_examples ex_env_def)

lemma row_price_examples:
  "row_price mtnn_row = 501 / 2" "row_price uba_row = 2469 / 2" "row_price neg_row = - 5"
  by (simp_all add: row_price_def mtnn_row_def uba_row_def neg_row_def listing_row_cells
      toNumber_examples)


section \<open>Rows off the watchlist, and the sign of the fixed-point price\<close>

lemma judge_row_off_watchlist:
  "extractCode (td_href r) = [] \<or> extractCode (td_href r) \<notin> TARGET_SET \<Longrightarrow> judge_row env r = Skip"
  by (auto simp: judge_row_def Let_def)

text \<open>
  Claim C6. A body row whose extracted code is empty or is not on the watchlist is skipped
  by the callback, whatever its price text: the arrays of assets and payloads, the rows and
  the warnings are as they were (so no warning about a missing address is written for it),
  the clock is not read, and the scrape of a table is the scrape of the table without that
  row.
\<close>

theorem off_watchlist_row_is_skipped:
  assumes "extractCode (td_href r) = [] \<or> extractCode (td_href r) \<notin> TARGET_SET"
  shows "each_row env bps now acc r = acc
    \<and> each_row_clock w bps (acc, evs) r = (acc, evs)
    \<and> each_row_prices w (acc, evs) r = (acc, evs)
    \<and> scrape_rows env bps now (xs @ r # ys) = scrape_rows env bps now (xs @ ys)"
proof -
  have skip: "\<And>e. judge_row e r = Skip"
    using assms by (rule judge_row_off_watchlist)
  have one: "\<And>a. each_row env bps now a r = a"
    by (simp add: each_row_def skip)
  have "scrape_rows env bps now (xs @ r # ys) = scrape_rows env bps now (xs @ ys)"
    by (simp add: scrape_rows_def one)
  then show ?thesis
    by (simp add: one each_row_clock_def each_row_prices_def skip)
qed

text \<open>
  The row with the code \<open>ACME\<close> and the price text \<open>10\<close>, which parses.
\<close>

theorem off_watchlist_row_witness:
  "extractCode (td_href off_row) = ''ACME''
   \<and> toNumber (td_text off_row 2) = Some 10
   \<and> each_row Map.empty 150 1000 no_scrape off_row = no_scrape
   \<and> scrape_rows ex_env 150 1000 [mtnn_row, off_row, uba_row] = scrape_rows ex_env 150 1000 [mtnn_row, uba_row]"
  using off_watchlist_row_is_skipped [of off_row Map.empty 150 1000 no_scrape]
    off_watchlist_row_is_skipped [of off_row ex_env 150 1000 _ _ _ "[mtnn_row]" "[uba_row]"]
  by (simp add: off_row_def listing_row_cells extractCode_examples watchlist_examples
      toNumber_examples)

lemma pxE6_sign: "0 \<le> pxE6 q \<longleftrightarrow> - (1 / 2000000) \<le> q"
proof -
  have "0 \<le> pxE6 q \<longleftrightarrow> 0 \<le> q * 1000000 + 1 / 2"
    by (simp add: pxE6_def round_def zero_le_floor)
  also have "\<dots> \<longleftrightarrow> - (1 / 2) \<le> q * 1000000"
    by linarith
  also have "\<dots> \<longleftrightarrow> - (1 / 2000000) \<le> q"
    by (simp add: field_simps)
  finally show ?thesis .
qed

text \<open>
  Claim C7 as stated says that every price payload has \<open>priceFixed \<ge> 0\<close> when the price
  text parses to a number. The price text \<open>-5\<close> parses to \<open>-5\<close>, and the builder, which has no
  check of the sign, gives the payload the fixed-point price \<open>-5000000\<close>.
\<close>

theorem negative_price_counterexample:
  "toNumber (td_text neg_row 2) = Some (- 5)
   \<and> map priceE6 (pricePayloads (scrape_rows ex_env 150 1000 [neg_row])) = [- 5000000]"
proof -
  have "toNumber (td_text neg_row 2) = Some (- 5)"
    by (simp add: neg_row_def listing_row_cells toNumber_examples)
  moreover have "map priceE6 (pricePayloads (scrape_rows ex_env 150 1000 [neg_row])) = [- 5000000]"
    by (simp add: scrape_rows_payloads passes_examples row_price_examples price_of_def pxE6_def)
  ultimately show ?thesis by simp
qed

text \<open>
  Claim C7, amended. The fixed-point price of a payload is non-negative exactly when the
  parsed price of its row is at least \<open>-0.0000005\<close>; so every payload has \<open>priceFixed \<ge> 0\<close>
  when every passing row has a non-negative parsed price.
\<close>

theorem priceE6_sign_follows_price:
  "map (\<lambda>p. 0 \<le> priceE6 p) (pricePayloads (scrape_rows env bps now trs)) =
     map (\<lambda>r. - (1 / 2000000) \<le> row_price r) (filter (passes env) trs)
   \<and> ((\<forall>r \<in> set trs. passes env r \<longrightarrow> 0 \<le> row_price r) \<longrightarrow>
       (\<forall>p \<in> set (pricePayloads (scrape_rows env bps now trs)). 0 \<le> priceE6 p))"
proof -
  have a: "map (\<lambda>p. 0 \<le> priceE6 p) (pricePayloads (scrape_rows env bps now trs)) =
     map (\<lambda>r. - (1 / 2000000) \<le> row_price r) (filter (passes env) trs)"
    by (simp add: scrape_rows_payloads price_of_def comp_def pxE6_sign)
  have b: "\<forall>p \<in> set (pricePayloads (scrape_rows env bps now trs)). 0 \<le> priceE6 p"
    if h: "\<forall>r \<in> set trs. passes env r \<longrightarrow> 0 \<le> row_price r"
  proof
    fix p assume "p \<in> set (pricePayloads (scrape_rows env bps now trs))"
    then obtain r where r: "r \<in> set trs" "passes env r" "p = price_of now r"
      by (auto simp: scrape_rows_payloads)
    with h have "0 \<le> row_price r" by blast
    then have "- (1 / 2000000) \<le> row_price r" by simp
    with r show "0 \<le> priceE6 p" by (simp add: price_of_def pxE6_sign)
  qed
  from a b show ?thesis by blast
qed

text \<open>
  Three passing rows, of which the second has the price \<open>-5\<close>.
\<close>

theorem priceE6_sign_witness:
  "map (\<lambda>p. 0 \<le> priceE6 p) (pricePayloads (scrape_rows ex_env 150 1000 [mtnn_row, neg_row, uba_row]))
     = [True, False, True]"
  using priceE6_sign_follows_price [of ex_env 150 1000 "[mtnn_row, neg_row, uba_row]"]
  by (simp add: passes_examples row_price_examples)

section \<open>The field normalizer\<close>


lemma dropWhile_none: "\<forall>c \<in> set xs. \<not> P c \<Longrightarrow> dropWhile P xs = xs"
  by (cases xs) auto

lemma trim_no_ws:
  assumes "\<forall>c \<in> set s. \<not> is_ws c"
  shows "trim s = s"
proof -
  from assms have "dropWhile is_ws s = s" by (rule dropWhile_none)
  moreover from assms have "dropWhile is_ws (rev s) = rev s" by (intro dropWhile_none) simp
  ultimately show ?thesis by (simp add: trim_def)
qed

lemma trim_strip_percent: "trim (strip_percent txt) = strip_percent txt"
  by (rule trim_no_ws) (simp add: strip_percent_def)













lemma parsePercent_eq:
  "parsePercent txt =
     (if strip_percent txt = ''-'' \<or> strip_percent txt = [] then None
      else (case js_Number (drop_leading_minus (strip_percent txt)) of
              Fin n \<Rightarrow> Some ((n / 100) * (if leading_minus (trim txt) then - 1 else 1))
            | _ \<Rightarrow> None))"
proof (cases "txt = []")
  case True
  then have "strip_percent txt = []" by (simp add: strip_percent_def)
  with True show ?thesis by (simp only: parsePercent_def if_True simp_thms)
next
  case False
  then show ?thesis by (simp only: parsePercent_def Let_def if_False trim_strip_percent)
qed

lemma js_Number_percent_examples:
  "js_Number ''1.23'' = Fin (123 / 100)" "js_Number ''2'' = Fin 2" "js_Number ''12'' = Fin 12"
  "js_Number ''1+2'' = NaN"
  by (simp_all add: js_Number_def trim_def is_ws_def non_decimal_def number_defs)

lemma parsePercent_examples:
  "parsePercent ''-1.23%'' = Some (- (123 / 10000))"
  "parsePercent ''+2%'' = Some (2 / 100)"
  "parsePercent ''-'' = None"
  "parsePercent ''1+2%'' = Some (3 / 25)"
  by (simp_all add: parsePercent_eq strip_percent_def is_ws_def drop_leading_minus_def
      leading_minus_def trim_def js_Number_percent_examples)

text \<open>
  Claim C9 as stated says that a leading \<open>+\<close> is stripped and that what is left is null when
  it is no number. On \<open>1+2%\<close> that gives null (\<open>1+2\<close> is no number); \<open>parsePercent\<close> strips
  every \<open>+\<close>, reads \<open>12\<close> and returns 0.12.
\<close>

theorem parsePercent_inner_plus_counterexample:
  "parsePercent ''1+2%'' = Some (3 / 25) \<and> parsePercent_spec ''1+2%'' = None"
  by (simp add: parsePercent_examples parsePercent_spec_def strip_ws_commas_percent_def
      drop_leading_plus_def is_ws_def drop_leading_minus_def js_Number_percent_examples)


lemma strip_percent_filter:
  "strip_percent txt = filter (\<lambda>c. c \<noteq> CHR ''+'') (strip_ws_commas_percent txt)"
  by (simp add: strip_percent_def strip_ws_commas_percent_def conj_ac)

lemma filter_plus_leading:
  "CHR ''+'' \<notin> set (drop 1 u) \<Longrightarrow> filter (\<lambda>c. c \<noteq> CHR ''+'') u = drop_leading_plus u"
  by (cases u) (auto simp: drop_leading_plus_def filter_id_conv)

lemma parsePercent_agrees:
  assumes "CHR ''+'' \<notin> set (drop 1 (strip_ws_commas_percent txt))"
  shows "parsePercent txt = parsePercent_spec txt"
proof -
  have "strip_percent txt = drop_leading_plus (strip_ws_commas_percent txt)"
    using assms by (simp add: strip_percent_filter filter_plus_leading)
  then show ?thesis
    by (simp only: parsePercent_eq parsePercent_spec_def Let_def)
qed

text \<open>
  Claim C9, amended. \<open>parsePercent\<close> strips white space, commas, \<open>%\<close> and every \<open>+\<close> (not the
  leading one alone); it is null when \<open>-\<close> or nothing is left or when the rest, without its
  leading \<open>-\<close>, is no finite number; otherwise it is that number divided by 100, negated
  when the trimmed original starts with \<open>-\<close>. It agrees with the specification's wording on
  every string with no \<open>+\<close> after the first stripped character, and
  \<open>parsePercent("-1.23%") = -0.0123\<close>, \<open>parsePercent("+2%") = 0.02\<close>, \<open>parsePercent("-") = null\<close>.
\<close>

theorem parsePercent_characterisation:
  "parsePercent txt =
     (if strip_percent txt = ''-'' \<or> strip_percent txt = [] then None
      else (case js_Number (drop_leading_minus (strip_percent txt)) of
              Fin n \<Rightarrow> Some ((n / 100) * (if leading_minus (trim txt) then - 1 else 1))
            | _ \<Rightarrow> None))
   \<and> (CHR ''+'' \<notin> set (drop 1 (strip_ws_commas_percent txt)) \<longrightarrow>
        parsePercent txt = parsePercent_spec txt)
   \<and> parsePercent ''-1.23%'' = Some (- 0.0123) \<and> parsePercent ''+2%'' = Some 0.02
   \<and> parsePercent ''-'' = None"
proof (intro conjI impI)
  show "parsePercent txt =
     (if strip_percent txt = ''-'' \<or> strip_percent txt = [] then None
      else (case js_Number (drop_leading_minus (strip_percent txt)) of
              Fin n \<Rightarrow> Some ((n / 100) * (if leading_minus (trim txt) then - 1 else 1))
            | _ \<Rightarrow> None))"
    by (rule parsePercent_eq)
  show "parsePercent txt = parsePercent_spec txt"
    if "CHR ''+'' \<notin> set (drop 1 (strip_ws_commas_percent txt))"
    using that by (rule parsePercent_agrees)
  show "parsePercent ''-1.23%'' = Some (- 0.0123)" "parsePercent ''+2%'' = Some 0.02"
    by (simp_all add: parsePercent_examples)
  show "parsePercent ''-'' = None"
    by (rule parsePercent_examples)
qed

text \<open>
  \<open>+2%\<close> has its only \<open>+\<close> in front: both readings give 0.02.
\<close>

theorem parsePercent_witness:
  "parsePercent ''+2%'' = Some 0.02 \<and> parsePercent_spec ''+2%'' = Some 0.02"
proof -
  have u: "strip_ws_commas_percent ''+2%'' = ''+2''"
    by (simp add: strip_ws_commas_percent_def is_ws_def)
  have "CHR ''+'' \<notin> set (drop 1 (strip_ws_commas_percent ''+2%''))"
    unfolding u by simp
  with parsePercent_characterisation [of "''+2%''"]
  have "parsePercent ''+2%'' = parsePercent_spec ''+2%''" "parsePercent ''+2%'' = Some 0.02"
    by blast+
  then show ?thesis by simp
qed

section \<open>The per-asset band calls\<close>

lemma send_trace: "snd (send w tr c) = tr @ [c]"
  by (simp add: send_def)

lemma band_calls_simps:
  "band_calls [] = []" "band_calls ((a, p) # zs) = SetBand a p # band_calls zs"
  by (simp_all add: band_calls_def)

lemma nth_call_0: "nth_call w tr ((a, p) # zs) 0 = fst (send w tr (SetBand a p))"
  by (simp add: nth_call_def band_calls_def)

lemma nth_call_Suc:
  "nth_call w tr ((a, p) # zs) (Suc k) = nth_call w (tr @ [SetBand a p]) zs k"
  by (simp add: nth_call_def band_calls_def)

lemma setBand_loop_ok:
  assumes "\<forall>k<length zs. \<exists>h'. nth_call w tr zs k = Inr h'"
  shows "\<exists>r. setBand_loop w tr zs h = (Inr r, tr @ band_calls zs) \<and>
             (zs = [] \<longrightarrow> r = h) \<and>
             (zs \<noteq> [] \<longrightarrow> (\<exists>hl. r = Some hl \<and> nth_call w tr zs (length zs - 1) = Inr hl))"
  using assms
proof (induction zs arbitrary: tr h)
  case Nil
  show ?case by (simp add: band_calls_simps)
next
  case (Cons z zs)
  obtain a p where z: "z = (a, p)" by (cases z)
  from Cons.prems obtain h1 where h1: "nth_call w tr (z # zs) 0 = Inr h1" by auto
  then have s: "send w tr (SetBand a p) = (Inr h1, tr @ [SetBand a p])"
    by (simp add: z nth_call_0 prod_eq_iff send_trace)
  have "\<forall>k<length zs. \<exists>h'. nth_call w (tr @ [SetBand a p]) zs k = Inr h'"
    using Cons.prems by (auto simp: z nth_call_Suc [symmetric])
  from Cons.IH [OF this, of "Some h1"]
  obtain r where r: "setBand_loop w (tr @ [SetBand a p]) zs (Some h1) =
        (Inr r, (tr @ [SetBand a p]) @ band_calls zs)"
      "zs = [] \<longrightarrow> r = Some h1"
      "zs \<noteq> [] \<longrightarrow> (\<exists>hl. r = Some hl \<and> nth_call w (tr @ [SetBand a p]) zs (length zs - 1) = Inr hl)"
    by blast
  show ?case
  proof (cases "zs = []")
    case True
    with r h1 show ?thesis by (simp add: z s band_calls_simps)
  next
    case False
    then obtain n where n: "length zs = Suc n" by (cases zs) auto
    with r False show ?thesis
      by (auto simp: z s band_calls_simps nth_call_Suc)
  qed
qed

lemma setBand_loop_fail:
  assumes "k < length zs"
    and "\<forall>j<k. \<exists>h'. nth_call w tr zs j = Inr h'"
    and "nth_call w tr zs k = Inl e"
  shows "setBand_loop w tr zs h = (Inl e, tr @ band_calls (take (Suc k) zs))"
  using assms
proof (induction zs arbitrary: tr h k)
  case Nil
  then show ?case by simp
next
  case (Cons z zs)
  obtain a p where z: "z = (a, p)" by (cases z)
  show ?case
  proof (cases k)
    case 0
    with Cons.prems have "send w tr (SetBand a p) = (Inl e, tr @ [SetBand a p])"
      by (simp add: z nth_call_0 prod_eq_iff send_trace)
    with 0 show ?thesis by (simp add: z band_calls_simps)
  next
    case (Suc k')
    from Cons.prems Suc obtain h1 where "nth_call w tr (z # zs) 0 = Inr h1" by auto
    then have s: "send w tr (SetBand a p) = (Inr h1, tr @ [SetBand a p])"
      by (simp add: z nth_call_0 prod_eq_iff send_trace)
    have "k' < length zs" using Cons.prems Suc by simp
    moreover have "\<forall>j<k'. \<exists>h'. nth_call w (tr @ [SetBand a p]) zs j = Inr h'"
      using Cons.prems(2) Suc by (auto simp: z nth_call_Suc [symmetric])
    moreover have "nth_call w (tr @ [SetBand a p]) zs k' = Inl e"
      using Cons.prems(3) Suc by (simp add: z nth_call_Suc)
    ultimately have "setBand_loop w (tr @ [SetBand a p]) zs (Some h1) =
        (Inl e, (tr @ [SetBand a p]) @ band_calls (take (Suc k') zs))"
      by (rule Cons.IH)
    with Suc show ?thesis by (simp add: z s band_calls_simps)
  qed
qed

lemma band_phase_fallback:
  assumes "assets \<noteq> []"
    and "hasSetBands w \<longrightarrow> (\<exists>e. fst (send w tr (SetBands assets payloads)) = Inl e)"
  shows "band_phase w tr assets payloads =
           setBand_loop w (fallback_start w tr assets payloads) (zip assets payloads) None"
proof (cases "hasSetBands w")
  case True
  with assms obtain e where "fst (send w tr (SetBands assets payloads)) = Inl e" by blast
  then have "send w tr (SetBands assets payloads) = (Inl e, tr @ [SetBands assets payloads])"
    by (simp add: prod_eq_iff send_trace)
  with True assms(1) show ?thesis by (simp add: band_phase_def fallback_start_def)
next
  case False
  with assms(1) show ?thesis by (simp add: band_phase_def fallback_start_def)
qed

lemma band_calls_zip:
  "length payloads = length assets \<Longrightarrow>
     band_calls (zip assets payloads) =
       map (\<lambda>i. SetBand (assets ! i) (payloads ! i)) [0..<length assets]"
  by (rule nth_equalityI) (simp_all add: band_calls_def)

lemma band_calls_take_zip:
  "length payloads = length assets \<Longrightarrow> n \<le> length assets \<Longrightarrow>
     band_calls (take n (zip assets payloads)) =
       map (\<lambda>i. SetBand (assets ! i) (payloads ! i)) [0..<n]"
  by (rule nth_equalityI) (simp_all add: band_calls_def)

text \<open>
  Claim C1, amended. When there are assets and the bulk band call is missing from the
  contract or throws, the per-asset calls are made one after the other in the order of the
  assets, each confirmed before the next is made. If every one of them succeeds, the calls
  made are exactly one per asset and the band phase ends with the hash of the last call. The
  first call that fails ends the loop and the band phase with its error: the calls made are
  those up to it, and none is made for the assets after it.
\<close>

theorem band_fallback_per_asset_calls:
  assumes "assets \<noteq> []" and "length payloads = length assets"
    and "hasSetBands w \<longrightarrow> (\<exists>e. fst (send w tr (SetBands assets payloads)) = Inl e)"
  shows "((\<forall>k<length assets. \<exists>h.
             nth_call w (fallback_start w tr assets payloads) (zip assets payloads) k = Inr h) \<longrightarrow>
          (\<exists>hl. nth_call w (fallback_start w tr assets payloads) (zip assets payloads)
                  (length assets - 1) = Inr hl \<and>
                band_phase w tr assets payloads =
                  (Inr (Some hl),
                   fallback_start w tr assets payloads @
                     map (\<lambda>i. SetBand (assets ! i) (payloads ! i)) [0..<length assets])))
       \<and> (\<forall>k<length assets. \<forall>e.
            (\<forall>j<k. \<exists>h. nth_call w (fallback_start w tr assets payloads) (zip assets payloads) j = Inr h) \<and>
            nth_call w (fallback_start w tr assets payloads) (zip assets payloads) k = Inl e \<longrightarrow>
            band_phase w tr assets payloads =
              (Inl e,
               fallback_start w tr assets payloads @
                 map (\<lambda>i. SetBand (assets ! i) (payloads ! i)) [0..<Suc k]))"
proof -
  define zs where "zs = zip assets payloads"
  define tr0 where "tr0 = fallback_start w tr assets payloads"
  have len: "length zs = length assets" and ne: "zs \<noteq> []"
    using assms(1,2) by (auto simp: zs_def)
  have bp: "band_phase w tr assets payloads = setBand_loop w tr0 zs None"
    unfolding zs_def tr0_def using assms(1,3) by (rule band_phase_fallback)
  have ok: "\<exists>hl. nth_call w tr0 zs (length assets - 1) = Inr hl \<and>
              band_phase w tr assets payloads =
                (Inr (Some hl), tr0 @ map (\<lambda>i. SetBand (assets ! i) (payloads ! i)) [0..<length assets])"
    if "\<forall>k<length assets. \<exists>h. nth_call w tr0 zs k = Inr h"
  proof -
    from that have "\<forall>k<length zs. \<exists>h'. nth_call w tr0 zs k = Inr h'" by (simp add: len)
    from setBand_loop_ok [OF this, of None] ne len
    obtain hl where "setBand_loop w tr0 zs None = (Inr (Some hl), tr0 @ band_calls zs)"
      "nth_call w tr0 zs (length assets - 1) = Inr hl"
      by auto
    then show ?thesis
      using assms(2) by (auto simp: bp zs_def band_calls_zip)
  qed
  have bad: "band_phase w tr assets payloads =
        (Inl e, tr0 @ map (\<lambda>i. SetBand (assets ! i) (payloads ! i)) [0..<Suc k])"
    if "k < length assets" "\<forall>j<k. \<exists>h. nth_call w tr0 zs j = Inr h" "nth_call w tr0 zs k = Inl e"
    for k e
  proof -
    from that have "setBand_loop w tr0 zs None = (Inl e, tr0 @ band_calls (take (Suc k) zs))"
      by (intro setBand_loop_fail) (simp_all add: len)
    moreover have "band_calls (take (Suc k) zs) =
        map (\<lambda>i. SetBand (assets ! i) (payloads ! i)) [0..<Suc k]"
      unfolding zs_def using assms(2) that(1) by (intro band_calls_take_zip) simp_all
    ultimately show ?thesis by (simp add: bp)
  qed
  from ok bad show ?thesis unfolding zs_def tr0_def by blast
qed

section \<open>The example worlds, evaluated\<close>

lemma is_listing_example: "is_listing \<lparr>headers = ex_headers, tbody = trs\<rparr>"
  by (simp add: is_listing_def ex_headers_def toLowerCase_def ascii_lower_def ascii_upper_def)

lemma front_examples:
  "front (ex_world trs) = (Inr [\<lparr>headers = ex_headers, tbody = trs\<rparr>], [AxiosGet])"
  "front (fx_world trs) = (Inr [\<lparr>headers = ex_headers, tbody = trs\<rparr>], [AxiosGet])"
  "front (failing_world trs) = (Inr [\<lparr>headers = ex_headers, tbody = trs\<rparr>], [AxiosGet])"
  by (simp_all add: front_def ex_world_def fx_world_def failing_world_def ex_env_def
      locate_table_def is_listing_example)

lemma body_rows_example: "body_rows [\<lparr>headers = hs, tbody = trs\<rparr>] = trs"
  by (simp add: body_rows_def)

lemma world_env:
  "process_env (ex_world trs) = ex_env" "process_env (fx_world trs) = ex_env"
  "process_env (failing_world trs) = ex_env"
  by (simp_all add: ex_world_def fx_world_def failing_world_def)

lemma percent_examples:
  "parsePercent ''+1.20%'' = Some (3 / 250)" "parsePercent ''-3.40%'' = Some (- (17 / 500))"
proof -
  have "js_Number ''1.20'' = Fin (6 / 5)" "js_Number ''3.40'' = Fin (17 / 5)"
    by (simp_all add: js_Number_def trim_def is_ws_def non_decimal_def number_defs)
  then show "parsePercent ''+1.20%'' = Some (3 / 250)" "parsePercent ''-3.40%'' = Some (- (17 / 500))"
    by (simp_all add: parsePercent_eq strip_percent_def is_ws_def drop_leading_minus_def
        leading_minus_def)
qed

lemma judge_row_examples:
  "judge_row ex_env mtnn_row = Keep ''MTNN'' (501 / 2) (Some (3 / 250)) (Some (- (17 / 500))) ''0xAAA''"
  "judge_row ex_env uba_row = Keep ''UBA'' (2469 / 2) (Some (3 / 250)) (Some (- (17 / 500))) ''0xBBB''"
  by (simp_all add: judge_row_def mtnn_row_def uba_row_def listing_row_cells extractCode_examples
      watchlist_examples toNumber_examples percent_examples ex_env_def)

lemma scrape_two_assets:
  "priceAssets (scrape_rows ex_env bps now [mtnn_row, uba_row]) = [''0xAAA'', ''0xBBB'']"
  "bandAssets (scrape_rows ex_env bps now [mtnn_row, uba_row]) = [''0xAAA'', ''0xBBB'']"
  "pricePayloads (scrape_rows ex_env bps now [mtnn_row, uba_row]) = map (price_of now) [mtnn_row, uba_row]"
  "bandPayloads (scrape_rows ex_env bps now [mtnn_row, uba_row]) = map (band_of bps now) [mtnn_row, uba_row]"
  by (simp_all add: scrape_rows_payloads passes_examples)
     (simp_all add: scrape_rows_def each_row_def judge_row_examples push_row_def no_scrape_def)

lemma band_failure_fails_the_invocation:
  assumes "front w = (Inr sel, evs)" and "sel \<noteq> []"
    and "price_phase w evs (priceAssets (scrape_rows (process_env w) bps now (body_rows sel)))
           (pricePayloads (scrape_rows (process_env w) bps now (body_rows sel))) = (Inr ph, evs1)"
    and "band_phase w evs1 (bandAssets (scrape_rows (process_env w) bps now (body_rows sel)))
           (bandPayloads (scrape_rows (process_env w) bps now (body_rows sel))) = (Inl e, evs2)"
  shows "GET_run bps now w = (Failure e, evs2)"
  using assms by (simp add: GET_run_def submit_def Let_def)

text \<open>
  Claim C1 as stated says that the loop goes on through the remaining assets when one call
  fails and that the response reports the hash of the last successful call. With two assets,
  no bulk call and a per-asset call that reverts for the first asset, one per-asset call is
  made, none for the second asset, and the response is the failure.
\<close>

theorem band_fallback_counterexample:
  "bandAssets (scrape_rows ex_env 150 1000 [mtnn_row, uba_row]) = [''0xAAA'', ''0xBBB'']
   \<and> GET_run 150 1000 (failing_world [mtnn_row, uba_row]) =
       (Failure ''setBand reverted'',
        [AxiosGet,
         SetPrices [''0xAAA'', ''0xBBB''] [price_of 1000 mtnn_row, price_of 1000 uba_row],
         SetBand ''0xAAA'' (band_of 150 1000 mtnn_row)])"
proof -
  have "submit (failing_world [mtnn_row, uba_row]) [AxiosGet]
          (scrape_rows ex_env 150 1000 [mtnn_row, uba_row]) =
        (Inl ''setBand reverted'',
         [AxiosGet,
          SetPrices [''0xAAA'', ''0xBBB''] [price_of 1000 mtnn_row, price_of 1000 uba_row],
          SetBand ''0xAAA'' (band_of 150 1000 mtnn_row)])"
    by (simp add: submit_def scrape_two_assets price_phase_def band_phase_def send_def
        failing_world_def ex_world_def failing_oracle_def ex_tx_def)
  then show ?thesis
    by (simp add: GET_run_def front_examples body_rows_example world_env scrape_two_assets)
qed

text \<open>
  Two assets, a bulk call that reverts and per-asset calls that succeed: three calls, and the
  hash of the call for the second asset.
\<close>

theorem band_fallback_witness:
  "band_phase (ex_world []) [] [''0xAAA'', ''0xBBB'']
       [band_of 150 1000 mtnn_row, band_of 150 1000 uba_row] =
     (Inr (Some ''0xb0xBBB''),
      [SetBands [''0xAAA'', ''0xBBB''] [band_of 150 1000 mtnn_row, band_of 150 1000 uba_row],
       SetBand ''0xAAA'' (band_of 150 1000 mtnn_row),
       SetBand ''0xBBB'' (band_of 150 1000 uba_row)])"
proof -
  let ?assets = "[''0xAAA'', ''0xBBB'']"
  let ?payloads = "[band_of 150 1000 mtnn_row, band_of 150 1000 uba_row]"
  let ?w = "ex_world []"
  have bulk: "hasSetBands ?w \<longrightarrow> (\<exists>e. fst (send ?w [] (SetBands ?assets ?payloads)) = Inl e)"
    by (simp add: send_def ex_world_def ex_oracle_def)
  have start: "fallback_start ?w [] ?assets ?payloads = [SetBands ?assets ?payloads]"
    by (simp add: fallback_start_def ex_world_def)
  have calls: "nth_call ?w [SetBands ?assets ?payloads] (zip ?assets ?payloads) 0 = Inr ''0xb0xAAA''"
    "nth_call ?w [SetBands ?assets ?payloads] (zip ?assets ?payloads) (Suc 0) = Inr ''0xb0xBBB''"
    by (simp_all add: nth_call_def send_def ex_world_def ex_oracle_def ex_tx_def band_calls_def)
  have all: "\<forall>k<length ?assets. \<exists>h.
      nth_call ?w (fallback_start ?w [] ?assets ?payloads) (zip ?assets ?payloads) k = Inr h"
    unfolding start using calls by (auto simp: less_Suc_eq)
  have up: "[0..<length ?assets] = [0, Suc 0]"
    by (simp add: upt_rec)
  from band_fallback_per_asset_calls [of ?assets ?payloads ?w "[]", OF _ _ bulk] all
  obtain hl where
    "nth_call ?w (fallback_start ?w [] ?assets ?payloads) (zip ?assets ?payloads)
       (length ?assets - 1) = Inr hl"
    "band_phase ?w [] ?assets ?payloads =
       (Inr (Some hl), fallback_start ?w [] ?assets ?payloads @
          map (\<lambda>i. SetBand (?assets ! i) (?payloads ! i)) [0..<length ?assets])"
    by auto
  then show ?thesis
    unfolding start up using calls by simp
qed

section \<open>The FX phase and the response\<close>

lemma GET_chain_after_equity:
  assumes "front w = (Inr sel, tr)" and "sel \<noteq> []" and "nowSec w tr = (t0, tr1)"
    and "submit w tr1 (scrape_rows (process_env w) bps t0 (body_rows sel)) = (Inr (ph, bh), tr2)"
    and "fx_phase_chain w tr2 bps = (fx, tr3)"
  shows "fst (GET_chain bps w) =
           respond bps (scrape_rows (process_env w) bps t0 (body_rows sel)) ph (after_fx bh fx)"
  using assms by (simp add: GET_chain_def Let_def)

lemma GET_run_after_equity:
  assumes "front w = (Inr sel, tr)" and "sel \<noteq> []"
    and "submit w tr (scrape_rows (process_env w) bps now (body_rows sel)) = (Inr (ph, bh), tr2)"
    and "fx_phase_run w tr2 bps now = (fx, tr3)"
  shows "fst (GET_run bps now w) =
           respond bps (scrape_rows (process_env w) bps now (body_rows sel)) ph (after_fx bh fx)"
  using assms by (simp add: GET_run_def Let_def)

text \<open>
  Claim C4. When the price phase and the band phase have completed, whatever is thrown inside
  the FX phase is caught there: the response has \<open>success = true\<close>, \<open>pricesUpdated\<close> and
  \<open>bandsUpdated\<close> are the lengths of the arrays of the equity phase, and the two hashes are those
  of the equity phase. This holds for the handler with \<open>nowSec\<close> and for \<open>route.js\<close>.
\<close>

theorem fx_failure_is_isolated:
  "(front w = (Inr sel, tr) \<and> sel \<noteq> [] \<and> nowSec w tr = (t0, tr1) \<and>
    submit w tr1 (scrape_rows (process_env w) bps t0 (body_rows sel)) = (Inr (ph, bh), tr2) \<and>
    fx_phase_chain w tr2 bps = (Inl e, tr3) \<longrightarrow>
      success (fst (GET_chain bps w)) \<and>
      fst (GET_chain bps w) =
        Success \<lparr>pricesUpdated = length (priceAssets (scrape_rows (process_env w) bps t0 (body_rows sel))),
                 bandsUpdated = length (bandAssets (scrape_rows (process_env w) bps t0 (body_rows sel))),
                 priceTxHash = ph, bandTxHash = bh, bandWidthBps = bps\<rparr>)
   \<and> (front w = (Inr sel, tr) \<and> sel \<noteq> [] \<and>
      submit w tr (scrape_rows (process_env w) bps now (body_rows sel)) = (Inr (ph', bh'), tr2') \<and>
      fx_phase_run w tr2' bps now = (Inl e', tr3') \<longrightarrow>
        success (fst (GET_run bps now w)) \<and>
        fst (GET_run bps now w) =
          Success \<lparr>pricesUpdated = length (priceAssets (scrape_rows (process_env w) bps now (body_rows sel))),
                   bandsUpdated = length (bandAssets (scrape_rows (process_env w) bps now (body_rows sel))),
                   priceTxHash = ph', bandTxHash = bh', bandWidthBps = bps\<rparr>)"
proof (intro conjI impI)
  assume h: "front w = (Inr sel, tr) \<and> sel \<noteq> [] \<and> nowSec w tr = (t0, tr1) \<and>
    submit w tr1 (scrape_rows (process_env w) bps t0 (body_rows sel)) = (Inr (ph, bh), tr2) \<and>
    fx_phase_chain w tr2 bps = (Inl e, tr3)"
  then have r: "fst (GET_chain bps w) =
      respond bps (scrape_rows (process_env w) bps t0 (body_rows sel)) ph (after_fx bh (Inl e))"
    using GET_chain_after_equity [of w sel tr t0 tr1 bps ph bh tr2 "Inl e" tr3] by simp
  then show "success (fst (GET_chain bps w))"
    by (simp add: respond_def)
  from r show "fst (GET_chain bps w) =
        Success \<lparr>pricesUpdated = length (priceAssets (scrape_rows (process_env w) bps t0 (body_rows sel))),
                 bandsUpdated = length (bandAssets (scrape_rows (process_env w) bps t0 (body_rows sel))),
                 priceTxHash = ph, bandTxHash = bh, bandWidthBps = bps\<rparr>"
    by (simp add: respond_def after_fx_def)
next
  assume h: "front w = (Inr sel, tr) \<and> sel \<noteq> [] \<and>
      submit w tr (scrape_rows (process_env w) bps now (body_rows sel)) = (Inr (ph', bh'), tr2') \<and>
      fx_phase_run w tr2' bps now = (Inl e', tr3')"
  then have r: "fst (GET_run bps now w) =
      respond bps (scrape_rows (process_env w) bps now (body_rows sel)) ph' (after_fx bh' (Inl e'))"
    using GET_run_after_equity [of w sel tr bps now ph' bh' tr2' "Inl e'" tr3'] by simp
  then show "success (fst (GET_run bps now w))"
    by (simp add: respond_def)
  from r show "fst (GET_run bps now w) =
          Success \<lparr>pricesUpdated = length (priceAssets (scrape_rows (process_env w) bps now (body_rows sel))),
                   bandsUpdated = length (bandAssets (scrape_rows (process_env w) bps now (body_rows sel))),
                   priceTxHash = ph', bandTxHash = bh', bandWidthBps = bps\<rparr>"
    by (simp add: respond_def after_fx_def)
qed

lemma nowSec_examples:
  "nowSec (ex_world trs) evs = (1700000000, evs @ [GetBlock])"
  "nowSec (fx_world trs) evs = (1700000000, evs @ [GetBlock])"
  by (simp_all add: nowSec_def ex_world_def fx_world_def)

lemma submit_examples:
  "submit (ex_world trs) evs (scrape_rows ex_env bps now [mtnn_row, uba_row]) =
     (Inr (Some ''0xp'', Some ''0xb0xBBB''), evs @ two_prices now # two_bands bps now)"
  "submit (fx_world trs) evs (scrape_rows ex_env bps now [mtnn_row, uba_row]) =
     (Inr (Some ''0xp'', Some ''0xb0xBBB''), evs @ two_prices now # two_bands bps now)"
  by (simp_all add: submit_def scrape_two_assets price_phase_def band_phase_def send_def
      ex_world_def fx_world_def ex_oracle_def ex_tx_def two_prices_def two_bands_def)

lemma fx_unreachable:
  "fx_phase_chain (ex_world trs) evs bps = (Inl ''fetch failed'', evs @ [GetBlock, Fetch])"
  "fx_phase_run (ex_world trs) evs bps now = (Inl ''fetch failed'', evs @ [Fetch])"
  by (simp_all add: fx_phase_chain_def fx_phase_run_def nowSec_examples)
     (simp_all add: ex_world_def)

text \<open>
  The example page with two rows and a rate service that cannot be reached.
\<close>

theorem fx_failure_witness:
  "fst (GET_chain 150 (ex_world [mtnn_row, uba_row])) =
     Success \<lparr>pricesUpdated = 2, bandsUpdated = 2, priceTxHash = Some ''0xp'',
              bandTxHash = Some ''0xb0xBBB'', bandWidthBps = 150\<rparr>
   \<and> fst (GET_run 150 1000 (ex_world [mtnn_row, uba_row])) =
     Success \<lparr>pricesUpdated = 2, bandsUpdated = 2, priceTxHash = Some ''0xp'',
              bandTxHash = Some ''0xb0xBBB'', bandWidthBps = 150\<rparr>"
  using fx_failure_is_isolated [of "ex_world [mtnn_row, uba_row]"
      "[\<lparr>headers = ex_headers, tbody = [mtnn_row, uba_row]\<rparr>]" "[AxiosGet]"
      1700000000 "[AxiosGet, GetBlock]" 150 "Some ''0xp''" "Some ''0xb0xBBB''"
      "[AxiosGet, GetBlock] @ two_prices 1700000000 # two_bands 150 1700000000"
      "''fetch failed''"
      "([AxiosGet, GetBlock] @ two_prices 1700000000 # two_bands 150 1700000000) @ [GetBlock, Fetch]"
      1000 "Some ''0xp''" "Some ''0xb0xBBB''"
      "[AxiosGet] @ two_prices 1000 # two_bands 150 1000"
      "''fetch failed''"
      "([AxiosGet] @ two_prices 1000 # two_bands 150 1000) @ [Fetch]"]
  by (simp add: front_examples nowSec_examples world_env body_rows_example submit_examples
      fx_unreachable scrape_two_assets)

lemma send_Inr:
  "send w evs c = (Inr h, evs') \<Longrightarrow>
     evs' = evs @ [c] \<and> (\<exists>t. oracleHub w evs c = Inr t \<and> tx_hash t = h)"
  by (auto simp: send_def split: sum.splits)

lemma fx_submit_Inr:
  assumes "fx_submit w evs bps t r = (Inr h, evs')"
  shows "\<exists>evs0 bl t4. evs' = evs0 @ [SetBand ngnAsset bl] \<and>
           oracleHub w evs0 (SetBand ngnAsset bl) = Inr t4 \<and> tx_hash t4 = h"
proof -
  let ?pl = "\<lparr>priceE6 = r, seq = t, ts = t, hcsMsgId = zero_bytes32\<rparr>"
  let ?bl = "\<lparr>midE6 = r, widthBps = bps, band_ts = t\<rparr>"
  obtain r3 evs3 where s3: "send w evs (SetPrice ngnAsset ?pl) = (r3, evs3)"
    by (cases "send w evs (SetPrice ngnAsset ?pl)")
  show ?thesis
  proof (cases r3)
    case (Inl e)
    with assms s3 show ?thesis by (simp add: fx_submit_def Let_def)
  next
    case (Inr h3)
    with assms s3 have "send w evs3 (SetBand ngnAsset ?bl) = (Inr h, evs')"
      by (simp add: fx_submit_def Let_def)
    from send_Inr [OF this] show ?thesis by blast
  qed
qed

lemma fx_phase_chain_Inr:
  assumes "fx_phase_chain w evs bps = (Inr h, evs')"
  shows "\<exists>evs0 bl t4. evs' = evs0 @ [SetBand ngnAsset bl] \<and>
           oracleHub w evs0 (SetBand ngnAsset bl) = Inr t4 \<and> tx_hash t4 = h"
  using assms
  by (auto simp: fx_phase_chain_def split: prod.splits sum.splits dest: fx_submit_Inr)

lemma fx_phase_run_Inr:
  assumes "fx_phase_run w evs bps now = (Inr h, evs')"
  shows "\<exists>evs0 bl t4. evs' = evs0 @ [SetBand ngnAsset bl] \<and>
           oracleHub w evs0 (SetBand ngnAsset bl) = Inr t4 \<and> tx_hash t4 = h"
  using assms
  by (auto simp: fx_phase_run_def split: prod.splits sum.splits dest: fx_submit_Inr)

text \<open>
  Claim C10. When the FX phase comes to its end, \<open>bandTxHash\<close> of the response is the hash of
  the transaction that the oracle returned for the FX phase's \<open>setBand\<close> call on the synthetic
  asset, in place of the hash of the band phase; when the FX phase throws, \<open>bandTxHash\<close> is the
  hash of the band phase. This holds for the handler with \<open>nowSec\<close> and for \<open>route.js\<close>.
\<close>

theorem fx_success_overwrites_band_hash:
  "(front w = (Inr sel, tr) \<and> sel \<noteq> [] \<and> nowSec w tr = (t0, tr1) \<and>
    submit w tr1 (scrape_rows (process_env w) bps t0 (body_rows sel)) = (Inr (ph, bh), tr2) \<and>
    fx_phase_chain w tr2 bps = (fx, tr3) \<longrightarrow>
      fst (GET_chain bps w) =
        Success \<lparr>pricesUpdated = length (priceAssets (scrape_rows (process_env w) bps t0 (body_rows sel))),
                 bandsUpdated = length (bandAssets (scrape_rows (process_env w) bps t0 (body_rows sel))),
                 priceTxHash = ph,
                 bandTxHash = (case fx of Inl e \<Rightarrow> bh | Inr h \<Rightarrow> Some h),
                 bandWidthBps = bps\<rparr> \<and>
      (\<forall>h. fx = Inr h \<longrightarrow>
         (\<exists>evs bl t4. tr3 = evs @ [SetBand ngnAsset bl] \<and>
            oracleHub w evs (SetBand ngnAsset bl) = Inr t4 \<and> tx_hash t4 = h)))
   \<and> (front w = (Inr sel, tr) \<and> sel \<noteq> [] \<and>
      submit w tr (scrape_rows (process_env w) bps now (body_rows sel)) = (Inr (ph', bh'), tr2') \<and>
      fx_phase_run w tr2' bps now = (fx', tr3') \<longrightarrow>
        fst (GET_run bps now w) =
          Success \<lparr>pricesUpdated = length (priceAssets (scrape_rows (process_env w) bps now (body_rows sel))),
                   bandsUpdated = length (bandAssets (scrape_rows (process_env w) bps now (body_rows sel))),
                   priceTxHash = ph',
                   bandTxHash = (case fx' of Inl e \<Rightarrow> bh' | Inr h \<Rightarrow> Some h),
                   bandWidthBps = bps\<rparr> \<and>
        (\<forall>h. fx' = Inr h \<longrightarrow>
           (\<exists>evs bl t4. tr3' = evs @ [SetBand ngnAsset bl] \<and>
              oracleHub w evs (SetBand ngnAsset bl) = Inr t4 \<and> tx_hash t4 = h)))"
proof (intro conjI impI allI)
  assume h: "front w = (Inr sel, tr) \<and> sel \<noteq> [] \<and> nowSec w tr = (t0, tr1) \<and>
    submit w tr1 (scrape_rows (process_env w) bps t0 (body_rows sel)) = (Inr (ph, bh), tr2) \<and>
    fx_phase_chain w tr2 bps = (fx, tr3)"
  then show "fst (GET_chain bps w) =
        Success \<lparr>pricesUpdated = length (priceAssets (scrape_rows (process_env w) bps t0 (body_rows sel))),
                 bandsUpdated = length (bandAssets (scrape_rows (process_env w) bps t0 (body_rows sel))),
                 priceTxHash = ph,
                 bandTxHash = (case fx of Inl e \<Rightarrow> bh | Inr h \<Rightarrow> Some h),
                 bandWidthBps = bps\<rparr>"
    using GET_chain_after_equity [of w sel tr t0 tr1 bps ph bh tr2 fx tr3]
    by (simp add: respond_def after_fx_def)
  fix h' assume "fx = Inr h'"
  with h have "fx_phase_chain w tr2 bps = (Inr h', tr3)" by simp
  then show "\<exists>evs bl t4. tr3 = evs @ [SetBand ngnAsset bl] \<and>
            oracleHub w evs (SetBand ngnAsset bl) = Inr t4 \<and> tx_hash t4 = h'"
    by (rule fx_phase_chain_Inr)
next
  assume h: "front w = (Inr sel, tr) \<and> sel \<noteq> [] \<and>
      submit w tr (scrape_rows (process_env w) bps now (body_rows sel)) = (Inr (ph', bh'), tr2') \<and>
      fx_phase_run w tr2' bps now = (fx', tr3')"
  then show "fst (GET_run bps now w) =
          Success \<lparr>pricesUpdated = length (priceAssets (scrape_rows (process_env w) bps now (body_rows sel))),
                   bandsUpdated = length (bandAssets (scrape_rows (process_env w) bps now (body_rows sel))),
                   priceTxHash = ph',
                   bandTxHash = (case fx' of Inl e \<Rightarrow> bh' | Inr h \<Rightarrow> Some h),
                   bandWidthBps = bps\<rparr>"
    using GET_run_after_equity [of w sel tr bps now ph' bh' tr2' fx' tr3']
    by (simp add: respond_def after_fx_def)
  fix h' assume "fx' = Inr h'"
  with h have "fx_phase_run w tr2' bps now = (Inr h', tr3')" by simp
  then show "\<exists>evs bl t4. tr3' = evs @ [SetBand ngnAsset bl] \<and>
              oracleHub w evs (SetBand ngnAsset bl) = Inr t4 \<and> tx_hash t4 = h'"
    by (rule fx_phase_run_Inr)
qed

lemma fx_reachable:
  "fx_phase_chain (fx_world trs) evs bps =
     (Inr (''0xb'' @ ngnAsset), evs @ [GetBlock, Fetch] @ fx_calls bps 1700000000)"
  "fx_phase_run (fx_world trs) evs bps now =
     (Inr (''0xb'' @ ngnAsset), evs @ [Fetch] @ fx_calls bps now)"
  by (simp_all add: fx_phase_chain_def fx_phase_run_def nowSec_examples)
     (simp_all add: fx_world_def ex_world_def fx_rate_chain_def fx_rate_run_def round2_def
        fx_submit_def send_def ex_oracle_def ex_tx_def fx_calls_def)

text \<open>
  The example page with two rows and a rate service that answers.
\<close>

theorem fx_success_witness:
  "fst (GET_chain 150 (fx_world [mtnn_row, uba_row])) =
     Success \<lparr>pricesUpdated = 2, bandsUpdated = 2, priceTxHash = Some ''0xp'',
              bandTxHash = Some (''0xb'' @ ngnAsset), bandWidthBps = 150\<rparr>
   \<and> fst (GET_run 150 1000 (fx_world [mtnn_row, uba_row])) =
     Success \<lparr>pricesUpdated = 2, bandsUpdated = 2, priceTxHash = Some ''0xp'',
              bandTxHash = Some (''0xb'' @ ngnAsset), bandWidthBps = 150\<rparr>"
  using fx_success_overwrites_band_hash [of "fx_world [mtnn_row, uba_row]"
      "[\<lparr>headers = ex_headers, tbody = [mtnn_row, uba_row]\<rparr>]" "[AxiosGet]"
      1700000000 "[AxiosGet, GetBlock]" 150 "Some ''0xp''" "Some ''0xb0xBBB''"
      "[AxiosGet, GetBlock] @ two_prices 1700000000 # two_bands 150 1700000000"
      "Inr (''0xb'' @ ngnAsset)"
      "([AxiosGet, GetBlock] @ two_prices 1700000000 # two_bands 150 1700000000) @
         [GetBlock, Fetch] @ fx_calls 150 1700000000"
      1000 "Some ''0xp''" "Some ''0xb0xBBB''"
      "[AxiosGet] @ two_prices 1000 # two_bands 150 1000"
      "Inr (''0xb'' @ ngnAsset)"
      "([AxiosGet] @ two_prices 1000 # two_bands 150 1000) @ [Fetch] @ fx_calls 150 1000"]
  by (simp add: front_examples nowSec_examples world_env body_rows_example submit_examples
      fx_reachable scrape_two_assets)

section \<open>Time stamps and the table locator\<close>

lemma scrape_rows_one_timestamp:
  "(\<forall>p \<in> set (pricePayloads (scrape_rows env bps now trs)). ts p = now \<and> seq p = now) \<and>
   (\<forall>b \<in> set (bandPayloads (scrape_rows env bps now trs)). band_ts b = now)"
  by (auto simp: scrape_rows_payloads price_of_def band_of_def)

lemma nowSec_prefers_chain:
  "getBlock w evs = Inr (Some t) \<Longrightarrow> t \<noteq> 0 \<Longrightarrow> nowSec w evs = (t, evs @ [GetBlock])"
  by (simp add: nowSec_def)

lemma nowSec_falls_back:
  "getBlock w evs = Inl e \<or> getBlock w evs = Inr None \<or> getBlock w evs = Inr (Some 0) \<Longrightarrow>
     nowSec w evs = (dateNow w (evs @ [GetBlock]), evs @ [GetBlock, DateNow])"
  by (auto simp: nowSec_def)

lemma clock_examples:
  "dateNow (ex_world trs) [AxiosGet] = 100" "dateNow (ex_world trs) [AxiosGet, DateNow] = 101"
  by (simp_all add: ex_world_def)

text \<open>
  Claim C3 at its failing input. The handler that reads the clock in every row it keeps
  (\<open>route.js\<close>, second listing) stamps two rows with two values when the clock ticks between
  them. The handler with \<open>nowSec\<close> reads the time once before the loop
  (\<open>scrape_rows_one_timestamp\<close>, \<open>nowSec_prefers_chain\<close>, \<open>nowSec_falls_back\<close>).
\<close>

theorem per_row_clock_gives_two_timestamps:
  "map ts (pricePayloads (fst (scrape_rows_clock (ex_world []) 150 [AxiosGet] [mtnn_row, uba_row])))
     = [100, 101]
   \<and> map band_ts (bandPayloads (fst (scrape_rows_clock (ex_world []) 150 [AxiosGet] [mtnn_row, uba_row])))
     = [100, 101]"
  by (simp add: scrape_rows_clock_def each_row_clock_def world_env judge_row_examples
      clock_examples push_row_def no_scrape_def)

lemma locate_table_empty_iff:
  "locate_table doc = [] \<longleftrightarrow> (\<forall>t \<in> set doc. \<not> is_listing t)"
  by (simp add: locate_table_def filter_empty_conv)

lemma locate_table_first:
  "locate_table (pre @ t # post) = [t]"
  if "is_listing t" and "\<forall>u \<in> set pre. \<not> is_listing u"
  using that by (simp add: locate_table_def filter_empty_conv [THEN iffD2])

lemma locate_table_cases:
  "locate_table doc = [] \<or>
   (\<exists>pre t post. doc = pre @ t # post \<and> is_listing t \<and> (\<forall>u \<in> set pre. \<not> is_listing u) \<and>
      locate_table doc = [t])"
proof (cases "\<forall>t \<in> set doc. \<not> is_listing t")
  case True
  then show ?thesis by (simp add: locate_table_empty_iff)
next
  case False
  then have "\<exists>t \<in> set doc. is_listing t" by blast
  then obtain pre t post where "doc = pre @ t # post" "is_listing t" "\<forall>u \<in> set pre. \<not> is_listing u"
    by (auto simp: split_list_first_prop_iff)
  then show ?thesis using locate_table_first by blast
qed

lemma GET_table_not_found:
  assumes "front w = (Inr sel, evs)"
  shows "sel = [] \<Longrightarrow> GET_run bps now w = (Failure table_not_found, evs)"
    and "sel = [] \<Longrightarrow> GET_run2 bps w = (Failure table_not_found, evs)"
    and "sel = [] \<Longrightarrow> GET_chain bps w = (Failure table_not_found, evs)"
  using assms by (simp_all add: GET_run_def GET_run2_def GET_chain_def)

lemma front_bare: "front bare_world = (Inr [], [AxiosGet])"
  by (simp add: front_def bare_world_def ex_world_def ex_env_def locate_table_def)

text \<open>
  Claim C5 at its failing input. On a page with no table the first version of the handler
  answers with success and the count 0, where \<open>route.js\<close> fails with the table-not-found
  error. The locator itself selects the first table that qualifies and selects nothing
  exactly when none does (\<open>locate_table_cases\<close>, \<open>locate_table_empty_iff\<close>).
\<close>

theorem first_version_succeeds_without_table:
  "GET_prices bare_world = (Counted 0, [AxiosGet])
   \<and> GET_run 150 1000 bare_world = (Failure table_not_found, [AxiosGet])"
  by (simp add: GET_prices_def GET_run_def front_bare body_rows_def price_phase_def no_scrape_def)

end
